theory Spec2Isabelle
  imports
    Complex_Main
    "HOL-Library.Sublist"
    "HOL-Library.Char_ord"
    "HOL-Library.List_Lexorder"
    "HOL-Library.Option_ord"
    "HOL-Library.Multiset"
begin

section \<open>Python strings\<close>

text \<open>
  Strings are byte lists. The journal is ASCII in every field the projector inspects, so
  \<open>str.lower\<close> is modelled on the ASCII letters and \<open>str.strip\<close> on the ASCII white
  space; \<open>needle in hay\<close> is \<^const>\<open>sublist\<close>, \<open>startswith\<close> is \<^const>\<open>prefix\<close> and
  \<open>endswith\<close> is \<^const>\<open>suffix\<close>. String comparison is by code point, which is the order
  of \<open>HOL-Library.Char_ord\<close> lifted to lists by \<open>HOL-Library.List_Lexorder\<close>.
\<close>

definition lower_char :: "char \<Rightarrow> char" where
  "lower_char c =
     (if CHR ''A'' \<le> c \<and> c \<le> CHR ''Z'' then char_of (of_char c + (32::nat)) else c)"

definition lower :: "string \<Rightarrow> string" where
  "lower s = map lower_char s"

definition isspace :: "char \<Rightarrow> bool" where
  "isspace c \<longleftrightarrow>
     c \<in> set [CHR 0x09, CHR 0x0A, CHR 0x0B, CHR 0x0C, CHR 0x0D,
               CHR 0x1C, CHR 0x1D, CHR 0x1E, CHR 0x1F, CHR 0x20]"

definition strip :: "string \<Rightarrow> string" where
  "strip s = rev (dropWhile isspace (rev (dropWhile isspace s)))"

text \<open>\<open>d.get(key, default)\<close> on a key that the typed entry holds as an option.\<close>

definition dget :: "'a option \<Rightarrow> 'a \<Rightarrow> 'a" where
  "dget v dflt = (case v of None \<Rightarrow> dflt | Some x \<Rightarrow> x)"

section \<open>Journal entries\<close>

text \<open>
  One line of the journal is one JSON object. The projectors read it through
  \<open>data.get(key, default)\<close>; the model holds the keys they read as optional fields, typed
  as the journal writes them (strings, integers, numbers, lists of objects). A key
  absent from the object is \<open>None\<close>.
\<close>

record material =
  Name :: "string option"
  Name_Localised :: "string option"
  Proportion :: "real option"

record module =
  CargoCapacity :: "int option"

record item =
  item_Name :: "string option"
  item_Count :: "int option"

record entry =
  event :: "string option"
  timestamp :: "string option"
  Commander :: "string option"
  commander_Name :: "string option"
  Credits :: "int option"
  StarSystem :: "string option"
  Modules :: "module list option"
  Inventory :: "item list option"
  Materials :: "material list option"
  Content :: "string option"
  Content_Localised :: "string option"
  Remaining :: "real option"
  MotherlodeAmount :: "real option"
  MotherlodeMaterial :: "string option"
  Type :: "string option"
  Type_Localised :: "string option"
  SignalName :: "string option"
  SignalName_Localised :: "string option"
  IsStation :: "bool option"
  SystemAddress :: "int option"
  Channel :: "string option"
  From_Localised :: "string option"
  Message_Localised :: "string option"
  TotalSale :: "int option"
  TotalCost :: "int option"
  BaseValue :: "int option"
  Bonus :: "int option"

definition empty_entry :: entry where
  "empty_entry = \<lparr> event = None, timestamp = None, Commander = None,
     commander_Name = None, Credits = None, StarSystem = None, Modules = None,
     Inventory = None, Materials = None, Content = None, Content_Localised = None,
     Remaining = None, MotherlodeAmount = None, MotherlodeMaterial = None, Type = None,
     Type_Localised = None, SignalName = None, SignalName_Localised = None,
     IsStation = None, SystemAddress = None, Channel = None, From_Localised = None,
     Message_Localised = None, TotalSale = None, TotalCost = None, BaseValue = None,
     Bonus = None \<rparr>"

section \<open>The store of \<open>core/core_database.py\<close>\<close>

text \<open>
  SQLite values, rows of the singleton tables as the dictionaries \<open>dict(row)\<close> the
  accessors return, and rows of the append-only tables as records of their columns.
  \<open>CURRENT_TIMESTAMP\<close> and \<open>datetime.utcnow().isoformat()\<close> are read from a clock that
  every operation receives. SQLite's conversion of a value to the declared type of its
  column is outside the model: the projectors pass values of the declared type.
\<close>

datatype sqlval = SNull | SInt int | SReal real | SText string

type_synonym row = "string \<rightharpoonup> sqlval"

datatype exn =
    OperationalError | IntegrityError | JSONDecodeError | AttributeError | TypeError
  | FileNotFoundError | IndexError | OverflowError

text \<open>The two of them that are a \<open>sqlite3.Error\<close>.\<close>

definition sqlite3_Error :: "exn \<Rightarrow> bool" where
  "sqlite3_Error e \<longleftrightarrow> e = OperationalError \<or> e = IntegrityError"

record clock =
  CURRENT_TIMESTAMP :: string
  utcnow_isoformat :: string

record asteroid_row =
  a_id :: nat
  a_timestamp :: "string option"
  a_journal_timestamp :: "string option"
  a_material_name :: "string option"
  a_percentage :: "real option"
  a_is_motherlode :: int
  a_content_level :: "string option"
  a_is_surface :: int
  a_is_deepcore :: int
  a_remaining :: "real option"
  a_processed :: int

record refined_row =
  r_id :: nat
  r_timestamp :: string
  r_journal_timestamp :: string
  r_material_name :: string
  r_material_type :: string

record carrier_row =
  c_id :: nat
  c_signal_name :: string
  c_system_address :: int
  c_system_name :: sqlval
  c_discovered_timestamp :: string
  c_last_seen :: string

record fss_row =
  f_id :: nat
  f_signal_name :: string
  f_signal_type :: string
  f_is_station :: int
  f_system_address :: int
  f_system_name :: sqlval
  f_journal_timestamp :: string
  f_last_seen :: string

record chat_row =
  m_id :: nat
  m_journal_timestamp :: string
  m_channel :: string
  m_from_localised :: string
  m_message_localised :: string
  m_subtype :: string
  m_last_seen :: string

text \<open>
  An \<open>AUTOINCREMENT\<close> table is its rows in insertion order together with the largest
  identity ever handed out (SQLite's \<open>sqlite_sequence\<close>), so that identities are never
  reused after a delete.
\<close>

record store =
  game_state :: "row option"
  ship_status :: "row option"
  service_status :: "row option"
  prospected_asteroids :: "asteroid_row list"
  prospected_seq :: nat
  refined_materials :: "refined_row list"
  refined_seq :: nat
  fleet_carriers :: "carrier_row list"
  carrier_seq :: nat
  fss_signals :: "fss_row list"
  fss_seq :: nat
  chat_messages :: "chat_row list"
  chat_seq :: nat

text \<open>\<open>_create_tables\<close> on a fresh file: the three singleton rows and empty tables.\<close>

definition create_tables :: "clock \<Rightarrow> store" where
  "create_tables clk = \<lparr>
     game_state = Some [''id'' \<mapsto> SInt 1, ''commander_name'' \<mapsto> SText ''Unknown'',
       ''current_system'' \<mapsto> SText ''Unknown'', ''log_file_path'' \<mapsto> SNull,
       ''last_updated'' \<mapsto> SText (CURRENT_TIMESTAMP clk)],
     ship_status = Some [''id'' \<mapsto> SInt 1, ''cargo_capacity'' \<mapsto> SInt 0,
       ''cargo_count'' \<mapsto> SInt 0, ''limpet_count'' \<mapsto> SInt 0,
       ''commander_credits'' \<mapsto> SInt 0,
       ''last_updated'' \<mapsto> SText (CURRENT_TIMESTAMP clk)],
     service_status = Some [''id'' \<mapsto> SInt 1, ''is_running'' \<mapsto> SInt 0,
       ''pid'' \<mapsto> SNull, ''last_heartbeat'' \<mapsto> SText (CURRENT_TIMESTAMP clk),
       ''journal_file'' \<mapsto> SNull, ''scan_interval'' \<mapsto> SReal 0.5],
     prospected_asteroids = [], prospected_seq = 0,
     refined_materials = [], refined_seq = 0,
     fleet_carriers = [], carrier_seq = 0,
     fss_signals = [], fss_seq = 0,
     chat_messages = [], chat_seq = 0 \<rparr>"

subsection \<open>Chat messages\<close>

text \<open>
  \<open>DatabaseManager.add_chat_message\<close>: the subtype is the first branch of the
  \<open>if\<close>/\<open>elif\<close> chain that matches, on the lower-cased sender and channel.
\<close>

definition chat_subtype :: "string \<Rightarrow> string \<Rightarrow> string" where
  "chat_subtype from_loc channel =
     (if sublist ''security'' (lower from_loc) \<or> sublist ''system defence'' (lower from_loc)
        then ''sec''
      else if sublist ''pirate'' (lower from_loc) \<or> sublist ''wing'' (lower from_loc)
        then ''pirate''
      else if channel \<in> set [''system'', ''local''] then ''system''
      else if channel = ''squadron'' then ''sq''
      else if channel = ''friend'' then ''friends''
      else ''other'')"

definition add_chat_message :: "clock \<Rightarrow> entry \<Rightarrow> store \<Rightarrow> store" where
  "add_chat_message clk data db =
     (let channel = lower (dget (Channel data) ''unknown'');
          from_loc = dget (From_Localised data) ''Unknown'';
          msg_loc = dget (Message_Localised data) '''';
          ts = dget (timestamp data) '''';
          subtype = chat_subtype from_loc channel
      in db \<lparr> chat_messages := chat_messages db @
                 [\<lparr> m_id = Suc (chat_seq db), m_journal_timestamp = ts,
                    m_channel = channel, m_from_localised = from_loc,
                    m_message_localised = msg_loc, m_subtype = subtype,
                    m_last_seen = CURRENT_TIMESTAMP clk \<rparr>],
               chat_seq := Suc (chat_seq db) \<rparr>)"

subsection \<open>Partial updates of the singleton rows\<close>

text \<open>
  \<open>update_game_state\<close>, \<open>update_ship_status\<close> and \<open>update_service_status\<close> build
  \<open>UPDATE t SET k1 = ?, ... WHERE id = 1\<close> from their keyword arguments, whose names are
  Python identifiers. The statement is compiled first: it does not compile when a name
  is not a column of the table, names being compared without regard to case, and neither
  when there is no keyword at all (the \<open>SET\<close> list then starts with a comma or is
  empty). The values are bound next: an integer outside the signed 64 bits raises
  \<open>OverflowError\<close>. Then the statement runs: of two assignments to one column the
  rightmost stays, and the tables declare \<open>CHECK (id = 1)\<close>. A table whose row is missing
  is left as it is. A value is stored as it is bound: the conversions that a column's
  declared type applies to a value of another type (a numeric text bound to an integer
  column) are left out, the callers binding integers to the integer columns and strings
  to the text columns.
\<close>

definition game_state_columns :: "string list" where
  "game_state_columns =
     [''id'', ''commander_name'', ''current_system'', ''log_file_path'', ''last_updated'']"

definition ship_status_columns :: "string list" where
  "ship_status_columns =
     [''id'', ''cargo_capacity'', ''cargo_count'', ''limpet_count'', ''commander_credits'',
      ''last_updated'']"

definition service_status_columns :: "string list" where
  "service_status_columns =
     [''id'', ''is_running'', ''pid'', ''last_heartbeat'', ''journal_file'',
      ''scan_interval'']"

definition fits_int64 :: "int \<Rightarrow> bool" where
  "fits_int64 i \<longleftrightarrow> - (2 ^ 63) \<le> i \<and> i < 2 ^ 63"

definition bindable :: "sqlval \<Rightarrow> bool" where
  "bindable v = (case v of SInt i \<Rightarrow> fits_int64 i | _ \<Rightarrow> True)"

definition column_of :: "string list \<Rightarrow> string \<Rightarrow> string option" where
  "column_of columns k = find (\<lambda>c. lower c = lower k) columns"

definition canonical :: "string list \<Rightarrow> (string \<times> sqlval) list \<Rightarrow> (string \<times> sqlval) list" where
  "canonical columns assignments = map (\<lambda>(k, v). (the (column_of columns k), v)) assignments"

definition assign :: "(string \<times> sqlval) list \<Rightarrow> row \<Rightarrow> row" where
  "assign assignments r = fold (\<lambda>(k, v) m. m(k \<mapsto> v)) assignments r"

definition sql_update ::
  "string list \<Rightarrow> (string \<times> sqlval) list \<Rightarrow> row option \<Rightarrow> exn + row option" where
  "sql_update columns assignments r =
     (if assignments = [] \<or> (\<exists>k \<in> set (map fst assignments). column_of columns k = None)
        then Inl OperationalError
      else if \<exists>v \<in> set (map snd assignments). \<not> bindable v
        then Inl OverflowError
      else case r of
        None \<Rightarrow> Inr None
      | Some old \<Rightarrow>
          (let new = assign (canonical columns assignments) old
           in if new ''id'' = Some (SInt 1) then Inr (Some new) else Inl IntegrityError))"

definition get_game_state :: "store \<Rightarrow> row" where
  "get_game_state db = (case game_state db of Some r \<Rightarrow> r | None \<Rightarrow> Map.empty)"

definition update_game_state :: "clock \<Rightarrow> (string \<times> sqlval) list \<Rightarrow> store \<Rightarrow> exn + store" where
  "update_game_state clk kwargs db =
     (if kwargs = [] then Inl OperationalError
      else case sql_update game_state_columns
                  (kwargs @ [(''last_updated'', SText (CURRENT_TIMESTAMP clk))])
                  (game_state db) of
             Inl e \<Rightarrow> Inl e
           | Inr r \<Rightarrow> Inr (db \<lparr> game_state := r \<rparr>))"

definition get_ship_status :: "store \<Rightarrow> row" where
  "get_ship_status db = (case ship_status db of Some r \<Rightarrow> r | None \<Rightarrow> Map.empty)"

definition update_ship_status :: "clock \<Rightarrow> (string \<times> sqlval) list \<Rightarrow> store \<Rightarrow> exn + store" where
  "update_ship_status clk kwargs db =
     (if kwargs = [] then Inl OperationalError
      else case sql_update ship_status_columns
                  (kwargs @ [(''last_updated'', SText (CURRENT_TIMESTAMP clk))])
                  (ship_status db) of
             Inl e \<Rightarrow> Inl e
           | Inr r \<Rightarrow> Inr (db \<lparr> ship_status := r \<rparr>))"

definition get_service_status :: "store \<Rightarrow> row" where
  "get_service_status db = (case service_status db of Some r \<Rightarrow> r | None \<Rightarrow> Map.empty)"

definition update_service_status :: "(string \<times> sqlval) list \<Rightarrow> store \<Rightarrow> exn + store" where
  "update_service_status kwargs db =
     (case sql_update service_status_columns kwargs (service_status db) of
        Inl e \<Rightarrow> Inl e
      | Inr r \<Rightarrow> Inr (db \<lparr> service_status := r \<rparr>))"

subsection \<open>Fleet carriers and stations\<close>

text \<open>
  \<open>INSERT OR REPLACE\<close> on the \<open>UNIQUE\<close> signal name deletes the row of that name, if
  any, and inserts the new one under a fresh identity. The system address is bound as an
  integer.
\<close>

definition add_fleet_carrier ::
  "clock \<Rightarrow> string \<Rightarrow> int \<Rightarrow> sqlval \<Rightarrow> string \<Rightarrow> store \<Rightarrow> exn + store" where
  "add_fleet_carrier clk signal_name system_address system_name discovered_timestamp db =
     (if \<not> fits_int64 system_address then Inl OverflowError
      else Inr (db \<lparr> fleet_carriers :=
            filter (\<lambda>c. c_signal_name c \<noteq> signal_name) (fleet_carriers db) @
            [\<lparr> c_id = Suc (carrier_seq db), c_signal_name = signal_name,
               c_system_address = system_address, c_system_name = system_name,
               c_discovered_timestamp = discovered_timestamp,
               c_last_seen = CURRENT_TIMESTAMP clk \<rparr>],
          carrier_seq := Suc (carrier_seq db) \<rparr>))"

definition add_fss_signal ::
  "clock \<Rightarrow> string \<Rightarrow> string \<Rightarrow> bool \<Rightarrow> int \<Rightarrow> sqlval \<Rightarrow> string \<Rightarrow> store \<Rightarrow> exn + store" where
  "add_fss_signal clk signal_name signal_type is_station system_address system_name
       journal_timestamp db =
     (if \<not> fits_int64 system_address then Inl OverflowError
      else Inr (db \<lparr> fss_signals := fss_signals db @
            [\<lparr> f_id = Suc (fss_seq db), f_signal_name = signal_name,
               f_signal_type = signal_type, f_is_station = (if is_station then 1 else 0),
               f_system_address = system_address, f_system_name = system_name,
               f_journal_timestamp = journal_timestamp,
               f_last_seen = CURRENT_TIMESTAMP clk \<rparr>],
          fss_seq := Suc (fss_seq db) \<rparr>))"

subsection \<open>Prospected asteroids\<close>

text \<open>
  \<open>ORDER BY\<close> leaves the order of rows with equal keys open; the model keeps them in
  row order. \<open>NULL\<close> sorts before every value, as \<open>None\<close> does. A negative \<open>LIMIT\<close>
  is no limit. The limit and the identity are bound as integers, so that one outside the
  signed 64 bits raises \<open>OverflowError\<close>, which these methods do not catch.
\<close>

definition order_by_desc :: "('a \<Rightarrow> 'k::linorder) \<Rightarrow> 'a list \<Rightarrow> 'a list" where
  "order_by_desc key rows = rev (sort_key key (rev rows))"

definition sql_limit :: "int \<Rightarrow> 'a list \<Rightarrow> 'a list" where
  "sql_limit n rows = (if n < 0 then rows else take (nat n) rows)"

definition get_unprocessed_asteroids :: "int \<Rightarrow> store \<Rightarrow> exn + asteroid_row list" where
  "get_unprocessed_asteroids limit db =
     (if \<not> fits_int64 limit then Inl OverflowError
      else Inr (sql_limit limit
             (order_by_desc a_timestamp
                (filter (\<lambda>r. a_processed r = 0) (prospected_asteroids db)))))"

definition mark_asteroid_processed :: "int \<Rightarrow> store \<Rightarrow> exn + store" where
  "mark_asteroid_processed asteroid_id db =
     (if \<not> fits_int64 asteroid_id then Inl OverflowError
      else Inr (db \<lparr> prospected_asteroids :=
            map (\<lambda>r. if int (a_id r) = asteroid_id then r \<lparr> a_processed := 1 \<rparr> else r)
                (prospected_asteroids db) \<rparr>))"

definition clear_asteroids :: "store \<Rightarrow> store" where
  "clear_asteroids db = db \<lparr> prospected_asteroids := [] \<rparr>"

definition insert_asteroid :: "asteroid_row \<Rightarrow> store \<Rightarrow> store" where
  "insert_asteroid r db =
     db \<lparr> prospected_asteroids :=
            prospected_asteroids db @ [r \<lparr> a_id := Suc (prospected_seq db) \<rparr>],
          prospected_seq := Suc (prospected_seq db) \<rparr>"

definition insert_refined :: "refined_row \<Rightarrow> store \<Rightarrow> store" where
  "insert_refined r db =
     db \<lparr> refined_materials :=
            refined_materials db @ [r \<lparr> r_id := Suc (refined_seq db) \<rparr>],
          refined_seq := Suc (refined_seq db) \<rparr>"

section \<open>The projector of \<open>services/service_gamelog.py\<close>\<close>

text \<open>
  \<open>JournalProcessor\<close> holds the store; what it writes to the logger is kept as a list of
  level and message, the message without its formatted arguments. Every handler is one
  \<open>try\<close> block whose \<open>except Exception\<close> logs an error; what the block wrote to the
  store before the exception stays written, each statement being committed on its own.
\<close>

datatype level = DEBUG | INFO | WARNING | ERROR

record processor =
  proc_db :: store
  logger :: "(level \<times> string) list"

definition emit :: "level \<Rightarrow> string \<Rightarrow> processor \<Rightarrow> processor" where
  "emit lv msg p = p \<lparr> logger := logger p @ [(lv, msg)] \<rparr>"

text \<open>
  \<open>s.replace(old, new)\<close> for a non-empty \<open>old\<close>: the occurrences are replaced from the
  left, without overlap. The counter is the number of characters of a match still to skip.
\<close>

fun replace_from :: "nat \<Rightarrow> string \<Rightarrow> string \<Rightarrow> string \<Rightarrow> string" where
  "replace_from k old new [] = []"
| "replace_from (Suc k) old new (c # cs) = replace_from k old new cs"
| "replace_from 0 old new (c # cs) =
     (if prefix old (c # cs) then new @ replace_from (length old - 1) old new cs
      else c # replace_from 0 old new cs)"

definition replace :: "string \<Rightarrow> string \<Rightarrow> string \<Rightarrow> string" where
  "replace old new s = replace_from 0 old new s"

definition handle_LoadGame :: "clock \<Rightarrow> entry \<Rightarrow> processor \<Rightarrow> processor" where
  "handle_LoadGame clk data p =
     (let commander = dget (Commander data) ''Unknown'';
          credits = dget (Credits data) 0
      in case update_game_state clk [(''commander_name'', SText commander)] (proc_db p) of
           Inl e \<Rightarrow> emit ERROR ''Error handling LoadGame'' p
         | Inr db1 \<Rightarrow>
             (case update_ship_status clk [(''commander_credits'', SInt credits)] db1 of
                Inl e \<Rightarrow> emit ERROR ''Error handling LoadGame'' (p \<lparr> proc_db := db1 \<rparr>)
              | Inr db2 \<Rightarrow> emit INFO ''LoadGame'' (p \<lparr> proc_db := db2 \<rparr>)))"

definition handle_Location :: "clock \<Rightarrow> entry \<Rightarrow> processor \<Rightarrow> processor" where
  "handle_Location clk data p =
     (let system_name = dget (StarSystem data) ''Unknown''
      in case update_game_state clk [(''current_system'', SText system_name)] (proc_db p) of
           Inl e \<Rightarrow> emit ERROR ''Error handling Location'' p
         | Inr db1 \<Rightarrow> emit INFO ''Location'' (p \<lparr> proc_db := db1 \<rparr>))"

definition handle_FSDJump :: "clock \<Rightarrow> entry \<Rightarrow> processor \<Rightarrow> processor" where
  "handle_FSDJump clk data p =
     (let system_name = dget (StarSystem data) ''Unknown''
      in case update_game_state clk [(''current_system'', SText system_name)] (proc_db p) of
           Inl e \<Rightarrow> emit ERROR ''Error handling FSDJump'' p
         | Inr db1 \<Rightarrow> emit INFO ''FSDJump'' (p \<lparr> proc_db := db1 \<rparr>))"

definition handle_Docked :: "clock \<Rightarrow> entry \<Rightarrow> processor \<Rightarrow> processor" where
  "handle_Docked clk data p = emit INFO ''Docked'' p"

text \<open>The loop of \<open>_handle_Loadout\<close> over the modules, then its guard on the sum.\<close>

definition loadout_capacity :: "module list \<Rightarrow> int" where
  "loadout_capacity modules =
     fold (\<lambda>m cargo_capacity.
             case CargoCapacity m of
               Some c \<Rightarrow> cargo_capacity + c
             | None \<Rightarrow> cargo_capacity)
          modules 0"

definition handle_Loadout :: "clock \<Rightarrow> entry \<Rightarrow> processor \<Rightarrow> processor" where
  "handle_Loadout clk data p =
     (let cargo_capacity = loadout_capacity (dget (Modules data) [])
      in if cargo_capacity > 0
         then (case update_ship_status clk [(''cargo_capacity'', SInt cargo_capacity)] (proc_db p) of
                 Inl e \<Rightarrow> emit ERROR ''Error handling Loadout'' p
               | Inr db1 \<Rightarrow> emit INFO ''Loadout: Cargo capacity'' (p \<lparr> proc_db := db1 \<rparr>))
         else p)"

definition cargo_counts :: "item list \<Rightarrow> int \<times> int" where
  "cargo_counts inventory =
     fold (\<lambda>i (cargo_count, limpet_count).
             let name = lower (dget (item_Name i) '''');
                 count = dget (item_Count i) 0
             in if sublist ''limpet'' name then (cargo_count, limpet_count + count)
                else (cargo_count + count, limpet_count))
          inventory (0, 0)"

definition handle_Cargo :: "clock \<Rightarrow> entry \<Rightarrow> processor \<Rightarrow> processor" where
  "handle_Cargo clk data p =
     (let (cargo_count, limpet_count) = cargo_counts (dget (Inventory data) [])
      in case update_ship_status clk
                [(''cargo_count'', SInt cargo_count), (''limpet_count'', SInt limpet_count)]
                (proc_db p) of
           Inl e \<Rightarrow> emit ERROR ''Error handling Cargo'' p
         | Inr db1 \<Rightarrow> emit INFO ''Cargo'' (p \<lparr> proc_db := db1 \<rparr>))"

definition handle_Materials :: "clock \<Rightarrow> entry \<Rightarrow> processor \<Rightarrow> processor" where
  "handle_Materials clk data p = emit DEBUG ''Materials'' p"

text \<open>
  \<open>_handle_ProspectedAsteroid\<close>: one \<open>INSERT\<close> and one log line for each entry of
  \<open>Materials\<close>. The flags come from \<open>MotherlodeAmount\<close>; the entry's
  \<open>MotherlodeMaterial\<close> is not read.
\<close>

definition prospected_row :: "clock \<Rightarrow> entry \<Rightarrow> material \<Rightarrow> asteroid_row" where
  "prospected_row clk data material =
     (let content = dget (Content data) ''Unknown'';
          remaining = dget (Remaining data) 100.0;
          motherlode = dget (MotherlodeAmount data) 0;
          timestamp = dget (timestamp data) (utcnow_isoformat clk);
          material_name = dget (Name material) ''Unknown'';
          material_name = (if sublist ''_Name'' material_name
                           then replace ''_Name'' '''' material_name else material_name);
          percentage = dget (Proportion material) 0.0 * 100;
          is_surface = (if motherlode = 0 then 1 else 0);
          is_deepcore = (if motherlode > 0 then 1 else 0);
          is_motherlode = (if motherlode > 0 then 1 else 0)
      in \<lparr> a_id = 0, a_timestamp = Some (CURRENT_TIMESTAMP clk),
           a_journal_timestamp = Some timestamp, a_material_name = Some material_name,
           a_percentage = Some percentage, a_is_motherlode = is_motherlode,
           a_content_level = Some content, a_is_surface = is_surface,
           a_is_deepcore = is_deepcore, a_remaining = Some remaining, a_processed = 0 \<rparr>)"

definition handle_ProspectedAsteroid :: "clock \<Rightarrow> entry \<Rightarrow> processor \<Rightarrow> processor" where
  "handle_ProspectedAsteroid clk data p =
     fold (\<lambda>material q.
             emit INFO ''Prospected''
               (q \<lparr> proc_db := insert_asteroid (prospected_row clk data material) (proc_db q) \<rparr>))
          (dget (Materials data) []) p"

definition handle_MiningRefined :: "clock \<Rightarrow> entry \<Rightarrow> processor \<Rightarrow> processor" where
  "handle_MiningRefined clk data p =
     (let material_name = dget (Type data) ''Unknown'';
          material_name = (if sublist ''_Name'' material_name
                           then replace ''_Name'' '''' material_name else material_name);
          timestamp = dget (timestamp data) (utcnow_isoformat clk)
      in emit INFO ''Refined''
           (p \<lparr> proc_db := insert_refined
                   \<lparr> r_id = 0, r_timestamp = CURRENT_TIMESTAMP clk,
                     r_journal_timestamp = timestamp, r_material_name = material_name,
                     r_material_type = ''mining'' \<rparr> (proc_db p) \<rparr>))"

definition handle_FSSSignalDiscovered :: "clock \<Rightarrow> entry \<Rightarrow> processor \<Rightarrow> processor" where
  "handle_FSSSignalDiscovered clk data p =
     (let signal_name = dget (SignalName data) ''Unknown'';
          signal_type = dget (SignalName_Localised data) signal_name;
          is_station = dget (IsStation data) False;
          system_address = dget (SystemAddress data) 0;
          timestamp = dget (timestamp data) (utcnow_isoformat clk);
          state = get_game_state (proc_db p);
          system_name = dget (state ''current_system'') (SText ''Unknown'')
      in if sublist ''FleetCarrier'' signal_type \<or> suffix '')'' signal_name
         then (case add_fleet_carrier clk signal_name system_address system_name timestamp
                      (proc_db p) of
                 Inl e \<Rightarrow> emit ERROR ''Error handling FSSSignalDiscovered'' p
               | Inr db1 \<Rightarrow> emit INFO ''Fleet Carrier discovered'' (p \<lparr> proc_db := db1 \<rparr>))
         else if is_station
         then (case add_fss_signal clk signal_name signal_type is_station system_address
                      system_name timestamp (proc_db p) of
                 Inl e \<Rightarrow> emit ERROR ''Error handling FSSSignalDiscovered'' p
               | Inr db1 \<Rightarrow> emit INFO ''Station discovered'' (p \<lparr> proc_db := db1 \<rparr>))
         else p)"

definition handle_ReceiveText :: "clock \<Rightarrow> entry \<Rightarrow> processor \<Rightarrow> processor" where
  "handle_ReceiveText clk data p =
     emit INFO ''Chat'' (p \<lparr> proc_db := add_chat_message clk data (proc_db p) \<rparr>)"

text \<open>
  The credit handlers read the balance back from the store and add to it in Python:
  an integer or a float takes the sum, \<open>None\<close> and a string raise \<open>TypeError\<close>. Added
  to a float, the integer is made a float first, which raises \<open>OverflowError\<close> from
  \<open>2 ^ 1024 - 2 ^ 970\<close> on; the sum of the floats is taken as the sum of the reals.
\<close>

definition py_add :: "sqlval \<Rightarrow> int \<Rightarrow> exn + sqlval" where
  "py_add v n =
     (case v of
        SInt c \<Rightarrow> Inr (SInt (c + n))
      | SReal r \<Rightarrow>
          if \<bar>n\<bar> < 2 ^ 1024 - 2 ^ 970 then Inr (SReal (r + of_int n))
          else Inl OverflowError
      | SNull \<Rightarrow> Inl TypeError
      | SText s \<Rightarrow> Inl TypeError)"

definition adjust_credits :: "string \<Rightarrow> string \<Rightarrow> clock \<Rightarrow> int \<Rightarrow> processor \<Rightarrow> processor" where
  "adjust_credits ok err clk delta p =
     (let status = get_ship_status (proc_db p);
          current_credits = dget (status ''commander_credits'') (SInt 0)
      in case py_add current_credits delta of
           Inl e \<Rightarrow> emit ERROR err p
         | Inr new_credits \<Rightarrow>
             (case update_ship_status clk [(''commander_credits'', new_credits)] (proc_db p) of
                Inl e \<Rightarrow> emit ERROR err p
              | Inr db1 \<Rightarrow> emit INFO ok (p \<lparr> proc_db := db1 \<rparr>)))"

definition handle_MarketSell :: "clock \<Rightarrow> entry \<Rightarrow> processor \<Rightarrow> processor" where
  "handle_MarketSell clk data p =
     adjust_credits ''MarketSell'' ''Error handling MarketSell'' clk
       (dget (TotalSale data) 0) p"

definition handle_MarketBuy :: "clock \<Rightarrow> entry \<Rightarrow> processor \<Rightarrow> processor" where
  "handle_MarketBuy clk data p =
     adjust_credits ''MarketBuy'' ''Error handling MarketBuy'' clk
       (- dget (TotalCost data) 0) p"

definition handle_SellExplorationData :: "clock \<Rightarrow> entry \<Rightarrow> processor \<Rightarrow> processor" where
  "handle_SellExplorationData clk data p =
     adjust_credits ''Exploration sold'' ''Error handling SellExplorationData'' clk
       (dget (BaseValue data) 0 + dget (Bonus data) 0) p"

text \<open>
  \<open>process_line\<close>. \<open>json.loads\<close> is a parameter: \<open>None\<close> is \<open>JSONDecodeError\<close>, a
  document that is not an object has no \<open>get\<close> (\<open>AttributeError\<close>, caught by the second
  \<open>except\<close>). The handler is looked up by the name \<open>_handle_\<close> followed by the event.
\<close>

datatype json = JObject entry | JOther

definition handler :: "string \<Rightarrow> (clock \<Rightarrow> entry \<Rightarrow> processor \<Rightarrow> processor) option" where
  "handler name =
     (if name = ''LoadGame'' then Some handle_LoadGame
      else if name = ''Location'' then Some handle_Location
      else if name = ''FSDJump'' then Some handle_FSDJump
      else if name = ''Docked'' then Some handle_Docked
      else if name = ''Loadout'' then Some handle_Loadout
      else if name = ''Cargo'' then Some handle_Cargo
      else if name = ''Materials'' then Some handle_Materials
      else if name = ''ProspectedAsteroid'' then Some handle_ProspectedAsteroid
      else if name = ''MiningRefined'' then Some handle_MiningRefined
      else if name = ''FSSSignalDiscovered'' then Some handle_FSSSignalDiscovered
      else if name = ''ReceiveText'' then Some handle_ReceiveText
      else if name = ''MarketSell'' then Some handle_MarketSell
      else if name = ''MarketBuy'' then Some handle_MarketBuy
      else if name = ''SellExplorationData'' then Some handle_SellExplorationData
      else None)"

definition dispatch :: "clock \<Rightarrow> entry \<Rightarrow> processor \<Rightarrow> processor" where
  "dispatch clk data p =
     (case handler (dget (event data) '''') of
        Some h \<Rightarrow> h clk data p
      | None \<Rightarrow> emit DEBUG ''Unhandled event'' p)"

definition process_line ::
  "(string \<Rightarrow> json option) \<Rightarrow> clock \<Rightarrow> string \<Rightarrow> processor \<Rightarrow> processor" where
  "process_line json_loads clk line p =
     (case json_loads line of
        None \<Rightarrow> emit ERROR ''JSON decode error'' p
      | Some JOther \<Rightarrow> emit ERROR ''Error processing line'' p
      | Some (JObject data) \<Rightarrow> dispatch clk data p)"

section \<open>The journal directory and its files\<close>

text \<open>
  A directory is the list of its files in the order the operating system lists them;
  a file has a name, the two time stamps the locators read, and its text as the text
  layer of an open handle yields it, every line ended by a newline character. Time
  stamps are finite floats, ordered as the reals are. Offsets count characters.
\<close>

record journal_file =
  file_name :: string
  st_mtime :: real
  st_ctime :: real
  contents :: string

type_synonym directory = "journal_file list"

definition lookup_file :: "directory \<Rightarrow> string \<Rightarrow> journal_file option" where
  "lookup_file dir name = find (\<lambda>f. file_name f = name) dir"

text \<open>
  The pattern \<open>Journal.*.log\<close> of \<open>glob\<close>: the star stands for any characters, none
  included, between the two fixed parts.
\<close>

definition glob_journal :: "string \<Rightarrow> bool" where
  "glob_journal name \<longleftrightarrow>
     prefix ''Journal.'' name \<and> suffix ''.log'' name
     \<and> length ''Journal.'' + length ''.log'' \<le> length name"

text \<open>
  \<open>max(xs, key=k)\<close> on a non-empty list: the first element whose key no later one
  exceeds.
\<close>

definition max_key :: "('a \<Rightarrow> 'k::linorder) \<Rightarrow> 'a \<Rightarrow> 'a list \<Rightarrow> 'a" where
  "max_key key x xs = fold (\<lambda>y best. if key best < key y then y else best) xs x"

text \<open>\<open>JournalMonitor.find_latest_journal\<close> of \<open>services/service_gamelog.py\<close>.\<close>

definition find_latest_journal :: "directory \<Rightarrow> string option" where
  "find_latest_journal dir =
     (case filter (\<lambda>f. glob_journal (file_name f)) dir of
        [] \<Rightarrow> None
      | f # journal_files \<Rightarrow> Some (file_name (max_key st_mtime f journal_files)))"

text \<open>\<open>JournalReader.get_latest_journal\<close> of \<open>journal_reader.py\<close>.\<close>

definition get_latest_journal :: "directory \<Rightarrow> string option" where
  "get_latest_journal dir =
     (case filter (\<lambda>f. glob_journal (file_name f)) dir of
        [] \<Rightarrow> None
      | f # journals \<Rightarrow> Some (file_name (max_key st_ctime f journals)))"

text \<open>
  \<open>JournalReader._find_latest_journal\<close> of \<open>ed_log_reader.py\<close>, up to the choice of the
  file: the directory may not exist (\<open>None\<close>), the names are filtered by their two fixed
  parts, sorted in reverse, and the first is taken. Both failures raise
  \<open>FileNotFoundError\<close>. The result is the name inside the directory; the source joins
  it to the directory's path and reports it to the service status.
\<close>

definition elr_find_latest_journal :: "directory option \<Rightarrow> exn + string" where
  "elr_find_latest_journal log_path =
     (case log_path of
        None \<Rightarrow> Inl FileNotFoundError
      | Some dir \<Rightarrow>
          (case rev (sort (filter (\<lambda>f. prefix ''Journal.'' f \<and> suffix ''.log'' f)
                                  (map file_name dir))) of
             [] \<Rightarrow> Inl FileNotFoundError
           | f # journal_files \<Rightarrow> Inr f))"

section \<open>The tail reader of \<open>services/service_gamelog.py\<close>\<close>

text \<open>
  \<open>readlines\<close> cuts the text after each newline and keeps a last piece that has none.
\<close>

fun readlines :: "string \<Rightarrow> string list" where
  "readlines [] = []"
| "readlines (c # cs) =
     (if c = CHR 0x0A then [c] # readlines cs
      else case readlines cs of
             [] \<Rightarrow> [[c]]
           | l # ls \<Rightarrow> (c # l) # ls)"

text \<open>
  A handle is open on a file, named here by the file's name, or closed; reading a closed
  handle raises. \<open>open_journal\<close> closes the handle it has, records the new file and
  opens it at its end; when the file cannot be opened the closed handle and the new name
  stay behind.
\<close>

datatype handle = Open string | Closed

record monitor =
  current_file :: "string option"
  file_handle :: "handle option"
  last_position :: nat

definition open_journal :: "directory \<Rightarrow> string \<Rightarrow> monitor \<Rightarrow> bool \<times> monitor" where
  "open_journal dir journal_file m =
     (let m1 = m \<lparr> file_handle := map_option (\<lambda>h. Closed) (file_handle m),
                   current_file := Some journal_file \<rparr>
      in case lookup_file dir journal_file of
           None \<Rightarrow> (False, m1)
         | Some f \<Rightarrow>
             (True, m1 \<lparr> file_handle := Some (Open journal_file),
                         last_position := length (contents f) \<rparr>))"

definition check_for_new_file :: "directory \<Rightarrow> monitor \<Rightarrow> bool \<times> monitor" where
  "check_for_new_file dir m =
     (case find_latest_journal dir of
        Some latest \<Rightarrow>
          if Some latest \<noteq> current_file m then open_journal dir latest m else (False, m)
      | None \<Rightarrow> (False, m))"

text \<open>
  \<open>read_new_lines\<close>: after a seek past the end of the file \<open>readlines\<close> returns nothing
  and \<open>tell\<close> returns the offset sought.
\<close>

definition read_new_lines :: "directory \<Rightarrow> monitor \<Rightarrow> string list \<times> monitor" where
  "read_new_lines dir m =
     (if file_handle m = None then ([], m)
      else
        let m1 = snd (check_for_new_file dir m)
        in case file_handle m1 of
             Some (Open name) \<Rightarrow>
               (case lookup_file dir name of
                  Some f \<Rightarrow>
                    (let lines = readlines (drop (last_position m1) (contents f));
                         m2 = m1 \<lparr> last_position :=
                                     max (last_position m1) (length (contents f)) \<rparr>
                     in (filter (\<lambda>l. l \<noteq> []) (map strip lines), m2))
                | None \<Rightarrow> ([], m1))
           | Some Closed \<Rightarrow> ([], m1)
           | None \<Rightarrow> ([], m1))"

text \<open>
  One turn of \<open>LogReaderService._run_loop\<close>: the new lines are read, each is processed
  in order (the \<open>for\<close> loop is \<open>process_lines\<close>), and every tenth turn refreshes the
  heartbeat.
\<close>

definition process_lines ::
  "(string \<Rightarrow> json option) \<Rightarrow> clock \<Rightarrow> string list \<Rightarrow> processor \<Rightarrow> processor" where
  "process_lines json_loads clk lines p = fold (process_line json_loads clk) lines p"

record service =
  monitor :: monitor
  processor :: processor
  heartbeat_counter :: nat

definition run_loop_turn ::
  "(string \<Rightarrow> json option) \<Rightarrow> clock \<Rightarrow> directory \<Rightarrow> service \<Rightarrow> service" where
  "run_loop_turn json_loads clk dir sv =
     (let (lines, m) = read_new_lines dir (monitor sv);
          p = process_lines json_loads clk lines (processor sv);
          n = Suc (heartbeat_counter sv)
      in if n \<ge> 10
         then (case update_service_status
                      [(''last_heartbeat'', SText (utcnow_isoformat clk))] (proc_db p) of
                 Inl e \<Rightarrow>
                   \<lparr> monitor = m, processor = emit ERROR ''Error in main loop'' p,
                     heartbeat_counter = n \<rparr>
               | Inr db1 \<Rightarrow>
                   \<lparr> monitor = m, processor = p \<lparr> proc_db := db1 \<rparr>, heartbeat_counter = 0 \<rparr>)
         else \<lparr> monitor = m, processor = p, heartbeat_counter = n \<rparr>)"

section \<open>The service of \<open>ed_log_reader.py\<close>\<close>

text \<open>
  The older service has its own \<open>DatabaseManager\<close> on tables of the same shape, and no
  ship status. Its methods catch \<open>sqlite3.Error\<close> themselves and leave the store as it
  was. What it logs is not modelled. Its names carry the prefix \<open>elr\<close>.
\<close>

definition truthy_str :: "string option \<Rightarrow> bool" where
  "truthy_str v = (case v of Some s \<Rightarrow> s \<noteq> [] | None \<Rightarrow> False)"



text \<open>
  \<open>add_prospected_asteroid\<close> takes a dictionary and inserts the seven columns it names;
  the capture time stays \<open>NULL\<close>, the surface flag and the processed flag take the
  defaults of the table.
\<close>

record asteroid_data =
  d_timestamp :: "string option"
  d_material_name :: "string option"
  d_percentage :: "real option"
  d_is_motherlode :: "int option"
  d_content_level :: "string option"
  d_is_deepcore :: "int option"
  d_remaining :: "real option"

definition elr_inserted_row :: "asteroid_data \<Rightarrow> asteroid_row" where
  "elr_inserted_row data =
     \<lparr> a_id = 0, a_timestamp = None,
       a_journal_timestamp = d_timestamp data,
       a_material_name = d_material_name data,
       a_percentage = d_percentage data,
       a_is_motherlode = dget (d_is_motherlode data) 0,
       a_content_level = Some (dget (d_content_level data) ''Unknown''),
       a_is_surface = 1,
       a_is_deepcore = dget (d_is_deepcore data) 0,
       a_remaining = Some (dget (d_remaining data) 100.0),
       a_processed = 0 \<rparr>"

definition elr_add_prospected_asteroid :: "asteroid_data \<Rightarrow> store \<Rightarrow> store" where
  "elr_add_prospected_asteroid data db = insert_asteroid (elr_inserted_row data) db"

definition elr_content_level :: "string \<Rightarrow> string" where
  "elr_content_level content =
     (if sublist ''Low'' content then ''Low''
      else if sublist ''Medium'' content then ''Medium''
      else if sublist ''High'' content then ''High''
      else ''Unknown'')"

definition elr_surface_data :: "entry \<Rightarrow> material \<Rightarrow> asteroid_data" where
  "elr_surface_data data material =
     (let material_name = dget (Name_Localised material) (dget (Name material) ''Unknown'');
          proportion = dget (Proportion material) 0.0
      in \<lparr> d_timestamp = Some (dget (timestamp data) ''''),
           d_material_name = Some material_name,
           d_percentage = Some proportion,
           d_is_motherlode = Some 0,
           d_content_level =
             Some (elr_content_level (dget (Content_Localised data) ''Unknown'')),
           d_is_deepcore = Some 0,
           d_remaining = Some (dget (Remaining data) 100.0) \<rparr>)"

definition elr_motherlode_data :: "entry \<Rightarrow> string \<Rightarrow> asteroid_data" where
  "elr_motherlode_data data motherlode_material =
     \<lparr> d_timestamp = Some (dget (timestamp data) ''''),
       d_material_name = Some motherlode_material,
       d_percentage = Some 100.0,
       d_is_motherlode = Some 1,
       d_content_level =
         Some (elr_content_level (dget (Content_Localised data) ''Unknown'')),
       d_is_deepcore = Some 1,
       d_remaining = Some (dget (Remaining data) 100.0) \<rparr>"

definition elr_handle_prospected_asteroid :: "entry \<Rightarrow> store \<Rightarrow> store" where
  "elr_handle_prospected_asteroid data db =
     (let db1 = fold (\<lambda>material. elr_add_prospected_asteroid (elr_surface_data data material))
                     (dget (Materials data) []) db
      in if truthy_str (MotherlodeMaterial data)
         then elr_add_prospected_asteroid
                (elr_motherlode_data data (the (MotherlodeMaterial data))) db1
         else db1)"





section \<open>The readers of the store\<close>

text \<open>
  The user interface reads through a connection of its own. A statement on it either runs
  on the store or raises; the argument of the readers below is that outcome.
  \<open>DatabaseReader\<close> of \<open>ed_mining_scanner.py\<close> catches \<open>sqlite3.Error\<close> only.
\<close>

definition scanner_get_unprocessed_asteroids :: "exn + store \<Rightarrow> exn + asteroid_row list" where
  "scanner_get_unprocessed_asteroids conn =
     (case conn of
        Inl e \<Rightarrow> if sqlite3_Error e then Inr [] else Inl e
      | Inr db \<Rightarrow>
          Inr (sort_key a_id (filter (\<lambda>r. a_processed r = 0) (prospected_asteroids db))))"

text \<open>Python's \<open>bool\<close> of a value read from the store.\<close>

definition truthy :: "sqlval \<Rightarrow> bool" where
  "truthy v =
     (case v of SNull \<Rightarrow> False | SInt i \<Rightarrow> i \<noteq> 0 | SReal r \<Rightarrow> r \<noteq> 0 | SText s \<Rightarrow> s \<noteq> [])"

record scanner_status =
  ss_is_running :: bool
  ss_pid :: "sqlval option"
  ss_last_heartbeat :: "sqlval option"
  ss_journal_file :: "sqlval option"

definition not_running :: scanner_status where
  "not_running = \<lparr> ss_is_running = False, ss_pid = None, ss_last_heartbeat = None,
                   ss_journal_file = None \<rparr>"

text \<open>Indexing a row by a column it does not have raises \<open>IndexError\<close>.\<close>

definition scanner_get_service_status :: "exn + store \<Rightarrow> exn + scanner_status" where
  "scanner_get_service_status conn =
     (case conn of
        Inl e \<Rightarrow> if sqlite3_Error e then Inr not_running else Inl e
      | Inr db \<Rightarrow>
          (case service_status db of
             None \<Rightarrow> Inr not_running
           | Some row \<Rightarrow>
               (case (row ''is_running'', row ''pid'', row ''last_heartbeat'',
                      row ''journal_file'') of
                  (Some r, Some p, Some h, Some j) \<Rightarrow>
                    Inr \<lparr> ss_is_running = truthy r, ss_pid = Some p,
                          ss_last_heartbeat = Some h, ss_journal_file = Some j \<rparr>
                | _ \<Rightarrow> Inl IndexError)))"

text \<open>
  \<open>is_running\<close> of \<open>LogLauncher\<close> in \<open>start.py\<close> and of \<open>LogReaderManager\<close> in
  \<open>windows/win_mining.py\<close>, which are the same text; it catches every exception.
\<close>

definition is_running :: "exn + store \<Rightarrow> bool" where
  "is_running conn =
     (case conn of
        Inl e \<Rightarrow> False
      | Inr db \<Rightarrow>
          (let status = get_service_status db
           in truthy (dget (status ''is_running'') (SInt 0))))"

section \<open>The classification of chat messages, as specified\<close>

text \<open>
  The ordered rules of the specification: a rule is a test on the sender's display name
  and the channel together with the subtype it gives; the first rule whose test holds
  decides, and \<open>other\<close> is the subtype when none does. The tests ignore case.
\<close>

definition icontains :: "string \<Rightarrow> string \<Rightarrow> bool" where
  "icontains s k \<longleftrightarrow> sublist (lower k) (lower s)"

definition iequal :: "string \<Rightarrow> string \<Rightarrow> bool" where
  "iequal s k \<longleftrightarrow> lower s = lower k"

definition spec_chat_rules :: "((string \<Rightarrow> string \<Rightarrow> bool) \<times> string) list" where
  "spec_chat_rules =
     [(\<lambda>sender channel. icontains sender ''security'' \<or> icontains sender ''system defence'',
       ''sec''),
      (\<lambda>sender channel. icontains sender ''pirate'' \<or> icontains sender ''wing'',
       ''pirate''),
      (\<lambda>sender channel. iequal channel ''system'' \<or> iequal channel ''local'',
       ''system''),
      (\<lambda>sender channel. iequal channel ''squadron'', ''sq''),
      (\<lambda>sender channel. iequal channel ''friend'', ''friends'')]"

fun first_match ::
  "((string \<Rightarrow> string \<Rightarrow> bool) \<times> string) list \<Rightarrow> string \<Rightarrow> string \<Rightarrow> string" where
  "first_match [] sender channel = ''other''"
| "first_match ((test, subtype) # rules) sender channel =
     (if test sender channel then subtype else first_match rules sender channel)"

definition spec_chat_subtype :: "string \<Rightarrow> string \<Rightarrow> string" where
  "spec_chat_subtype sender channel = first_match spec_chat_rules sender channel"

text \<open>The subtype of the row that \<open>add_chat_message\<close> stores for an entry.\<close>

definition stored_subtype :: "clock \<Rightarrow> entry \<Rightarrow> store \<Rightarrow> string" where
  "stored_subtype clk data db = m_subtype (last (chat_messages (add_chat_message clk data db)))"

section \<open>The events of a batch, as specified\<close>

text \<open>
  The decoder of the specification gives an event for a line that parses and a
  malformed signal otherwise; the events of a batch are the objects that its lines decode
  to, in the order of the lines.
\<close>

definition decoded_objects :: "(string \<Rightarrow> json option) \<Rightarrow> string list \<Rightarrow> entry list" where
  "decoded_objects json_loads lines =
     concat (map (\<lambda>l. case json_loads l of
                         Some (JObject data) \<Rightarrow> [data]
                       | Some JOther \<Rightarrow> []
                       | None \<Rightarrow> []) lines)"

section \<open>Example data\<close>

definition clock0 :: clock where
  "clock0 = \<lparr> CURRENT_TIMESTAMP = ''2025-11-29 12:00:00'',
              utcnow_isoformat = ''2025-11-29T12:00:00'' \<rparr>"

definition store0 :: store where
  "store0 = create_tables clock0"

definition chat_squadron :: entry where
  "chat_squadron = empty_entry \<lparr> event := Some ''ReceiveText'',
     Channel := Some ''Squadron'', From_Localised := Some ''CMDR Jameson'',
     Message_Localised := Some ''o7'' \<rparr>"

definition clock1 :: clock where
  "clock1 = \<lparr> CURRENT_TIMESTAMP = ''2025-11-29 12:00:01'',
              utcnow_isoformat = ''2025-11-29T12:00:01'' \<rparr>"

definition processor0 :: processor where
  "processor0 = \<lparr> proc_db = store0, logger = [] \<rparr>"

definition store_without_status :: store where
  "store_without_status = store0 \<lparr> service_status := None \<rparr>"

definition loadout64 :: entry where
  "loadout64 = empty_entry \<lparr> event := Some ''Loadout'',
     Modules := Some [\<lparr> CargoCapacity = Some 32 \<rparr>, \<lparr> CargoCapacity = None \<rparr>,
                      \<lparr> CargoCapacity = Some 32 \<rparr>] \<rparr>"

definition loadout_no_racks :: entry where
  "loadout_no_racks = empty_entry \<lparr> event := Some ''Loadout'',
     Modules := Some [\<lparr> CargoCapacity = None \<rparr>] \<rparr>"

definition prospect_painite :: entry where
  "prospect_painite = empty_entry \<lparr> event := Some ''ProspectedAsteroid'',
     timestamp := Some ''2025-11-29T11:59:51Z'',
     Materials := Some
       [\<lparr> Name = Some ''Platinum'', Name_Localised = None, Proportion = Some 51.662041 \<rparr>,
        \<lparr> Name = Some ''Praseodymium'', Name_Localised = None,
          Proportion = Some 11.502447 \<rparr>],
     Content := Some ''$AsteroidMaterialContent_Medium;'',
     Content_Localised := Some ''Material Content: Medium'',
     Remaining := Some 100,
     MotherlodeMaterial := Some ''Painite'' \<rparr>"

definition prospect_634 :: entry where
  "prospect_634 = empty_entry \<lparr> event := Some ''ProspectedAsteroid'',
     timestamp := Some ''2025-11-29T12:03:10Z'',
     Materials := Some
       [\<lparr> Name = Some ''Bromellite'', Name_Localised = None, Proportion = Some 63.4 \<rparr>],
     Content := Some ''$AsteroidMaterialContent_High;'',
     Content_Localised := Some ''Material Content: High'',
     Remaining := Some 100 \<rparr>"

definition location_sol :: entry where
  "location_sol = empty_entry \<lparr> event := Some ''Location'', StarSystem := Some ''Sol'' \<rparr>"

definition location_achenar :: entry where
  "location_achenar =
     empty_entry \<lparr> event := Some ''Location'', StarSystem := Some ''Achenar'' \<rparr>"

text \<open>A decoder for four lines: two objects, a number, and text that is not JSON.\<close>

definition example_loads :: "string \<Rightarrow> json option" where
  "example_loads line =
     (if line = ''{ event:Location, StarSystem:Sol }'' then Some (JObject location_sol)
      else if line = ''{ event:Location, StarSystem:Achenar }''
        then Some (JObject location_achenar)
      else if line = ''42'' then Some JOther
      else None)"

definition loadout_too_large :: entry where
  "loadout_too_large = empty_entry \<lparr> event := Some ''Loadout'',
     Modules := Some [\<lparr> CargoCapacity = Some (2 ^ 63 - 1) \<rparr>, \<lparr> CargoCapacity = Some 1 \<rparr>] \<rparr>"

text \<open>Two prospecting entries projected one second apart.\<close>

definition store_two :: store where
  "store_two =
     proc_db (handle_ProspectedAsteroid clock1 prospect_634
                (handle_ProspectedAsteroid clock0 prospect_painite
                   \<lparr> proc_db = store0 \<lparr> prospected_asteroids := [] \<rparr>, logger = [] \<rparr>))"

text \<open>
  Two listings of one directory: in the first the older journal was written to last,
  in the second the newer one.
\<close>

definition dir_old_touched :: directory where
  "dir_old_touched =
     [\<lparr> file_name = ''Journal.0001.log'', st_mtime = 20, st_ctime = 20, contents = '''' \<rparr>,
      \<lparr> file_name = ''Journal.0002.log'', st_mtime = 10, st_ctime = 10, contents = '''' \<rparr>]"

definition dir_new_touched :: directory where
  "dir_new_touched =
     [\<lparr> file_name = ''Journal.0001.log'', st_mtime = 10, st_ctime = 10, contents = '''' \<rparr>,
      \<lparr> file_name = ''Journal.0002.log'', st_mtime = 20, st_ctime = 20, contents = '''' \<rparr>]"








section \<open>Properties of Python strings\<close>

lemma lower_idem_lit:
  "lower ''security'' = ''security''" "lower ''system defence'' = ''system defence''"
  "lower ''pirate'' = ''pirate''" "lower ''wing'' = ''wing''"
  "lower ''system'' = ''system''" "lower ''local'' = ''local''"
  "lower ''squadron'' = ''squadron''" "lower ''friend'' = ''friend''"
  by code_simp+

section \<open>Chat classification\<close>

lemma chat_subtype_spec: "chat_subtype from_loc (lower channel) = spec_chat_subtype from_loc channel"
  by (simp add: chat_subtype_def spec_chat_subtype_def spec_chat_rules_def icontains_def
      iequal_def lower_idem_lit)

lemma add_chat_message_rows:
  "chat_messages (add_chat_message clk data db) =
     chat_messages db @ [last (chat_messages (add_chat_message clk data db))]"
  by (simp add: add_chat_message_def Let_def)

lemma stored_subtype_eq:
  "stored_subtype clk data db =
     chat_subtype (dget (From_Localised data) ''Unknown'') (lower (dget (Channel data) ''unknown''))"
  by (simp add: stored_subtype_def add_chat_message_def Let_def)

lemma system_defence_patrol: "sublist ''system defence'' (lower ''System Defence Patrol'')"
  by code_simp

text \<open>
  C7. The subtype stored for a chat entry is the one the first matching rule of the
  specification's ordered, case-insensitive list gives, on the entry's sender (default
  \<open>Unknown\<close>) and channel (default \<open>unknown\<close>); exactly one row is appended. A message
  whose sender is \<open>System Defence Patrol\<close> is stored as \<open>sec\<close> whatever its channel, and
  a message on the squadron channel whose sender contains none of the four sender
  keywords is stored as \<open>sq\<close>.
\<close>

theorem chat_classification:
  "chat_messages (add_chat_message clk data db) =
     chat_messages db @ [last (chat_messages (add_chat_message clk data db))]
   \<and> stored_subtype clk data db =
       spec_chat_subtype (dget (From_Localised data) ''Unknown'')
                         (dget (Channel data) ''unknown'')
   \<and> stored_subtype clk (data \<lparr> From_Localised := Some ''System Defence Patrol'' \<rparr>) db = ''sec''
   \<and> (iequal (dget (Channel data) ''unknown'') ''squadron''
        \<and> \<not> icontains (dget (From_Localised data) ''Unknown'') ''security''
        \<and> \<not> icontains (dget (From_Localised data) ''Unknown'') ''system defence''
        \<and> \<not> icontains (dget (From_Localised data) ''Unknown'') ''pirate''
        \<and> \<not> icontains (dget (From_Localised data) ''Unknown'') ''wing''
      \<longrightarrow> stored_subtype clk data db = ''sq'')"
proof (intro conjI impI)
  show "chat_messages (add_chat_message clk data db) =
     chat_messages db @ [last (chat_messages (add_chat_message clk data db))]"
    by (rule add_chat_message_rows)
  show "stored_subtype clk data db =
       spec_chat_subtype (dget (From_Localised data) ''Unknown'')
                         (dget (Channel data) ''unknown'')"
    by (simp add: stored_subtype_eq chat_subtype_spec)
  show "stored_subtype clk (data \<lparr> From_Localised := Some ''System Defence Patrol'' \<rparr>) db = ''sec''"
    using system_defence_patrol by (simp add: stored_subtype_eq dget_def chat_subtype_def)
next
  assume h: "iequal (dget (Channel data) ''unknown'') ''squadron''
        \<and> \<not> icontains (dget (From_Localised data) ''Unknown'') ''security''
        \<and> \<not> icontains (dget (From_Localised data) ''Unknown'') ''system defence''
        \<and> \<not> icontains (dget (From_Localised data) ''Unknown'') ''pirate''
        \<and> \<not> icontains (dget (From_Localised data) ''Unknown'') ''wing''"
  then show "stored_subtype clk data db = ''sq''"
    by (simp add: stored_subtype_eq chat_subtype_def icontains_def iequal_def lower_idem_lit)
qed

theorem chat_classification_witness:
  "stored_subtype clock0 chat_squadron store0 = ''sq''"
proof -
  have h: "iequal (dget (Channel chat_squadron) ''unknown'') ''squadron''
        \<and> \<not> icontains (dget (From_Localised chat_squadron) ''Unknown'') ''security''
        \<and> \<not> icontains (dget (From_Localised chat_squadron) ''Unknown'') ''system defence''
        \<and> \<not> icontains (dget (From_Localised chat_squadron) ''Unknown'') ''pirate''
        \<and> \<not> icontains (dget (From_Localised chat_squadron) ''Unknown'') ''wing''"
    unfolding chat_squadron_def empty_entry_def by code_simp
  from chat_classification [of clock0 chat_squadron store0] h show ?thesis
    by blast
qed

section \<open>The running flag\<close>

text \<open>
  C10. When the statement on the store raises, or the service status row is absent,
  \<open>is_running\<close> of the launcher and of the mining window answers \<open>False\<close>, and
  \<open>get_service_status\<close> of the scanner's reader returns the status that says not
  running (for the \<open>sqlite3.Error\<close> it catches); when the row is there the launcher's
  answer is the truth value of its \<open>is_running\<close> column. Each is a total function of
  the outcome of the read alone.
\<close>

theorem is_running_defaults_to_false:
  "is_running (Inl e) = False
   \<and> (service_status db = None \<longrightarrow> is_running (Inr db) = False)
   \<and> (service_status db = Some row \<longrightarrow>
        is_running (Inr db) = truthy (dget (row ''is_running'') (SInt 0)))
   \<and> (sqlite3_Error e \<longrightarrow> scanner_get_service_status (Inl e) = Inr not_running)
   \<and> (service_status db = None \<longrightarrow> scanner_get_service_status (Inr db) = Inr not_running)"
  by (simp add: is_running_def get_service_status_def dget_def truthy_def
      scanner_get_service_status_def)

theorem is_running_defaults_to_false_witness:
  "is_running (Inr store_without_status) = False
   \<and> is_running (Inr store0) = False
   \<and> scanner_get_service_status (Inl OperationalError) = Inr not_running
   \<and> scanner_get_service_status (Inr store_without_status) = Inr not_running"
proof -
  have h1: "service_status store_without_status = None"
    by (simp add: store_without_status_def)
  have h2: "service_status store0 = Some (the (service_status store0))"
    by (simp add: store0_def create_tables_def)
  have h3: "sqlite3_Error OperationalError"
    by (simp add: sqlite3_Error_def)
  have v: "truthy (dget (the (service_status store0) ''is_running'') (SInt 0)) = False"
    by (simp add: store0_def create_tables_def dget_def truthy_def)
  from is_running_defaults_to_false [of OperationalError store_without_status] h1 h3
  have a: "is_running (Inr store_without_status) = False
           \<and> scanner_get_service_status (Inl OperationalError) = Inr not_running
           \<and> scanner_get_service_status (Inr store_without_status) = Inr not_running"
    by blast
  from is_running_defaults_to_false [of _ store0 "the (service_status store0)"] h2
  have "is_running (Inr store0) =
          truthy (dget (the (service_status store0) ''is_running'') (SInt 0))"
    by blast
  with v have b: "is_running (Inr store0) = False"
    by simp
  from a b show ?thesis by blast
qed

section \<open>Partial updates\<close>






lemma column_of_game_state:
  "column_of game_state_columns ''id'' = Some ''id''"
  "column_of game_state_columns ''commander_name'' = Some ''commander_name''"
  "column_of game_state_columns ''current_system'' = Some ''current_system''"
  "column_of game_state_columns ''log_file_path'' = Some ''log_file_path''"
  "column_of game_state_columns ''last_updated'' = Some ''last_updated''"
  by code_simp+

lemma column_of_ship_status:
  "column_of ship_status_columns ''id'' = Some ''id''"
  "column_of ship_status_columns ''cargo_capacity'' = Some ''cargo_capacity''"
  "column_of ship_status_columns ''cargo_count'' = Some ''cargo_count''"
  "column_of ship_status_columns ''limpet_count'' = Some ''limpet_count''"
  "column_of ship_status_columns ''commander_credits'' = Some ''commander_credits''"
  "column_of ship_status_columns ''last_updated'' = Some ''last_updated''"
  by code_simp+















lemma store0_rows:
  "game_state store0 = Some [''id'' \<mapsto> SInt 1, ''commander_name'' \<mapsto> SText ''Unknown'',
       ''current_system'' \<mapsto> SText ''Unknown'', ''log_file_path'' \<mapsto> SNull,
       ''last_updated'' \<mapsto> SText ''2025-11-29 12:00:00'']"
  "ship_status store0 = Some [''id'' \<mapsto> SInt 1, ''cargo_capacity'' \<mapsto> SInt 0,
       ''cargo_count'' \<mapsto> SInt 0, ''limpet_count'' \<mapsto> SInt 0,
       ''commander_credits'' \<mapsto> SInt 0,
       ''last_updated'' \<mapsto> SText ''2025-11-29 12:00:00'']"
  "service_status store0 = Some [''id'' \<mapsto> SInt 1, ''is_running'' \<mapsto> SInt 0,
       ''pid'' \<mapsto> SNull, ''last_heartbeat'' \<mapsto> SText ''2025-11-29 12:00:00'',
       ''journal_file'' \<mapsto> SNull, ''scan_interval'' \<mapsto> SReal 0.5]"
  by (simp_all add: store0_def create_tables_def clock0_def)




section \<open>Cargo capacity from a loadout\<close>

lemma loadout_capacity_sum:
  "loadout_capacity ms = sum_list (map (\<lambda>m. dget (CargoCapacity m) 0) ms)"
proof -
  have "fold (\<lambda>m c. case CargoCapacity m of Some x \<Rightarrow> c + x | None \<Rightarrow> c) ms a
        = a + sum_list (map (\<lambda>m. dget (CargoCapacity m) 0) ms)" for a
    by (induction ms arbitrary: a) (auto simp: dget_def split: option.splits)
  from this [of 0] show ?thesis by (simp add: loadout_capacity_def)
qed

text \<open>
  C6, as the code has it. The capacity computed from a loadout is the sum of the
  \<open>CargoCapacity\<close> fields of the modules that have one. When that sum is positive and
  below \<open>2 ^ 63\<close> the ship status row takes it as its cargo capacity, whatever the
  capacity was before, and the time of the update; nothing else in the store changes.
  From \<open>2 ^ 63\<close> on the sum cannot be bound: the handler logs the error and the store
  stays as it was. When the sum is not positive the handler writes nothing: the store and
  the log stay as they were.
\<close>

theorem loadout_sets_positive_capacity:
  assumes "ship_status (proc_db p) = Some row" and "row ''id'' = Some (SInt 1)"
  shows
    "loadout_capacity (dget (Modules data) []) =
       sum_list (map (\<lambda>m. dget (CargoCapacity m) 0) (dget (Modules data) []))
     \<and> (0 < loadout_capacity (dget (Modules data) [])
        \<and> loadout_capacity (dget (Modules data) []) < 2 ^ 63 \<longrightarrow>
          proc_db (handle_Loadout clk data p) =
            (proc_db p) \<lparr> ship_status :=
               Some (row (''cargo_capacity'' \<mapsto> SInt (loadout_capacity (dget (Modules data) [])),
                          ''last_updated'' \<mapsto> SText (CURRENT_TIMESTAMP clk))) \<rparr>)
     \<and> (2 ^ 63 \<le> loadout_capacity (dget (Modules data) []) \<longrightarrow>
          handle_Loadout clk data p = emit ERROR ''Error handling Loadout'' p)
     \<and> (loadout_capacity (dget (Modules data) []) \<le> 0 \<longrightarrow> handle_Loadout clk data p = p)"
  using assms
  by (simp add: loadout_capacity_sum [symmetric] handle_Loadout_def Let_def
      update_ship_status_def sql_update_def canonical_def column_of_ship_status
      bindable_def fits_int64_def assign_def emit_def)

text \<open>
  C6 as stated fails when the sum is zero: after a loadout with 64 units of racks, a
  loadout without any rack leaves the capacity at 64.
\<close>

theorem loadout_zero_counterexample:
  "loadout_capacity (dget (Modules loadout_no_racks) []) = 0
   \<and> get_ship_status
        (proc_db (handle_Loadout clock1 loadout_no_racks
                    (handle_Loadout clock0 loadout64 processor0)))
        ''cargo_capacity'' = Some (SInt 64)"
  by (simp add: handle_Loadout_def Let_def loadout_capacity_def loadout_no_racks_def
      loadout64_def empty_entry_def dget_def processor0_def update_ship_status_def
      sql_update_def canonical_def column_of_ship_status bindable_def fits_int64_def
      assign_def emit_def store0_rows get_ship_status_def)

theorem loadout_sets_positive_capacity_witness:
  "get_ship_status (proc_db (handle_Loadout clock0 loadout64 processor0)) ''cargo_capacity''
     = Some (SInt 64)
   \<and> handle_Loadout clock0 loadout_too_large processor0 =
       processor0 \<lparr> logger := [(ERROR, ''Error handling Loadout'')] \<rparr>
   \<and> handle_Loadout clock0 loadout_no_racks processor0 = processor0"
proof -
  have h1: "ship_status (proc_db processor0) = Some (the (ship_status store0))"
    by (simp add: processor0_def store0_rows)
  have h2: "the (ship_status store0) ''id'' = Some (SInt 1)"
    by (simp add: store0_rows)
  have c: "loadout_capacity (dget (Modules loadout64) []) = 64"
    by (simp add: loadout_capacity_def loadout64_def empty_entry_def dget_def)
  then have h3: "0 < loadout_capacity (dget (Modules loadout64) [])
                 \<and> loadout_capacity (dget (Modules loadout64) []) < 2 ^ 63"
    by simp
  have h4: "2 ^ 63 \<le> loadout_capacity (dget (Modules loadout_too_large) [])"
    by (simp add: loadout_capacity_def loadout_too_large_def empty_entry_def dget_def)
  have h5: "loadout_capacity (dget (Modules loadout_no_racks) []) \<le> 0"
    by (simp add: loadout_capacity_def loadout_no_racks_def empty_entry_def dget_def)
  note a = loadout_sets_positive_capacity [OF h1 h2, of loadout64 clock0,
      THEN conjunct2, THEN conjunct1, THEN mp, OF h3]
  note b = loadout_sets_positive_capacity [OF h1 h2, of loadout_too_large clock0,
      THEN conjunct2, THEN conjunct2, THEN conjunct1, THEN mp, OF h4]
  note d = loadout_sets_positive_capacity [OF h1 h2, of loadout_no_racks clock0,
      THEN conjunct2, THEN conjunct2, THEN conjunct2, THEN mp, OF h5]
  from a have w1: "get_ship_status (proc_db (handle_Loadout clock0 loadout64 processor0))
      ''cargo_capacity'' = Some (SInt 64)"
    by (simp add: c get_ship_status_def)
  from b have w2: "handle_Loadout clock0 loadout_too_large processor0 =
       processor0 \<lparr> logger := [(ERROR, ''Error handling Loadout'')] \<rparr>"
    by (simp add: emit_def processor0_def)
  show ?thesis
    by (intro conjI) (rule w1, rule w2, rule d)
qed

section \<open>Lines that are not JSON\<close>

lemma fold_prospected_db:
  "proc_db (fold (\<lambda>material q. emit INFO ''Prospected''
               (q \<lparr> proc_db := insert_asteroid (f material) (proc_db q) \<rparr>)) ms p)
   = fold (\<lambda>material. insert_asteroid (f material)) ms (proc_db p)"
  by (induction ms arbitrary: p) (simp_all add: emit_def)

lemma handle_ProspectedAsteroid_db:
  "proc_db (handle_ProspectedAsteroid clk data p) =
     fold (\<lambda>material. insert_asteroid (prospected_row clk data material))
          (dget (Materials data) []) (proc_db p)"
  by (simp add: handle_ProspectedAsteroid_def fold_prospected_db)

text \<open>What a handler leaves in the store does not depend on what was logged before.\<close>

lemma adjust_credits_logger:
  "proc_db (adjust_credits ok err clk delta (p \<lparr> logger := lg \<rparr>)) =
   proc_db (adjust_credits ok err clk delta p)"
  by (simp add: adjust_credits_def Let_def emit_def split: sum.splits)

lemma handle_LoadGame_logger:
  "proc_db (handle_LoadGame clk data (p \<lparr> logger := lg \<rparr>)) =
   proc_db (handle_LoadGame clk data p)"
  by (simp add: handle_LoadGame_def Let_def emit_def split: sum.splits)

lemma handle_Location_logger:
  "proc_db (handle_Location clk data (p \<lparr> logger := lg \<rparr>)) =
   proc_db (handle_Location clk data p)"
  by (simp add: handle_Location_def Let_def emit_def split: sum.splits)

lemma handle_FSDJump_logger:
  "proc_db (handle_FSDJump clk data (p \<lparr> logger := lg \<rparr>)) =
   proc_db (handle_FSDJump clk data p)"
  by (simp add: handle_FSDJump_def Let_def emit_def split: sum.splits)

lemma handle_Docked_logger:
  "proc_db (handle_Docked clk data (p \<lparr> logger := lg \<rparr>)) =
   proc_db (handle_Docked clk data p)"
  by (simp add: handle_Docked_def emit_def)

lemma handle_Loadout_logger:
  "proc_db (handle_Loadout clk data (p \<lparr> logger := lg \<rparr>)) =
   proc_db (handle_Loadout clk data p)"
  by (simp add: handle_Loadout_def Let_def emit_def split: sum.splits)

lemma handle_Cargo_logger:
  "proc_db (handle_Cargo clk data (p \<lparr> logger := lg \<rparr>)) =
   proc_db (handle_Cargo clk data p)"
  by (simp add: handle_Cargo_def Let_def emit_def split: sum.splits prod.splits)

lemma handle_Materials_logger:
  "proc_db (handle_Materials clk data (p \<lparr> logger := lg \<rparr>)) =
   proc_db (handle_Materials clk data p)"
  by (simp add: handle_Materials_def emit_def)

lemma handle_ProspectedAsteroid_logger:
  "proc_db (handle_ProspectedAsteroid clk data (p \<lparr> logger := lg \<rparr>)) =
   proc_db (handle_ProspectedAsteroid clk data p)"
  by (simp add: handle_ProspectedAsteroid_db)

lemma handle_MiningRefined_logger:
  "proc_db (handle_MiningRefined clk data (p \<lparr> logger := lg \<rparr>)) =
   proc_db (handle_MiningRefined clk data p)"
  by (simp add: handle_MiningRefined_def Let_def emit_def)

lemma handle_FSSSignalDiscovered_logger:
  "proc_db (handle_FSSSignalDiscovered clk data (p \<lparr> logger := lg \<rparr>)) =
   proc_db (handle_FSSSignalDiscovered clk data p)"
  by (simp add: handle_FSSSignalDiscovered_def Let_def emit_def add_fleet_carrier_def
      add_fss_signal_def)

lemma handle_ReceiveText_logger:
  "proc_db (handle_ReceiveText clk data (p \<lparr> logger := lg \<rparr>)) =
   proc_db (handle_ReceiveText clk data p)"
  by (simp add: handle_ReceiveText_def emit_def)

lemma handle_MarketSell_logger:
  "proc_db (handle_MarketSell clk data (p \<lparr> logger := lg \<rparr>)) =
   proc_db (handle_MarketSell clk data p)"
  by (simp add: handle_MarketSell_def adjust_credits_logger)

lemma handle_MarketBuy_logger:
  "proc_db (handle_MarketBuy clk data (p \<lparr> logger := lg \<rparr>)) =
   proc_db (handle_MarketBuy clk data p)"
  by (simp add: handle_MarketBuy_def adjust_credits_logger)

lemma handle_SellExplorationData_logger:
  "proc_db (handle_SellExplorationData clk data (p \<lparr> logger := lg \<rparr>)) =
   proc_db (handle_SellExplorationData clk data p)"
  by (simp add: handle_SellExplorationData_def adjust_credits_logger)

lemmas handlers_logger =
  handle_LoadGame_logger handle_Location_logger handle_FSDJump_logger handle_Docked_logger
  handle_Loadout_logger handle_Cargo_logger handle_Materials_logger
  handle_ProspectedAsteroid_logger handle_MiningRefined_logger
  handle_FSSSignalDiscovered_logger handle_ReceiveText_logger handle_MarketSell_logger
  handle_MarketBuy_logger handle_SellExplorationData_logger

lemma handler_logger:
  assumes "handler name = Some h"
  shows "proc_db (h clk data (p \<lparr> logger := lg \<rparr>)) = proc_db (h clk data p)"
  using assms unfolding handler_def
  by (auto simp only: handlers_logger option.inject split: if_splits)

lemma dispatch_logger:
  "proc_db (dispatch clk data (p \<lparr> logger := lg \<rparr>)) = proc_db (dispatch clk data p)"
  by (simp add: dispatch_def emit_def handler_logger split: option.splits)

lemma dispatch_db:
  assumes "proc_db p = proc_db p'"
  shows "proc_db (dispatch clk data p) = proc_db (dispatch clk data p')"
proof -
  from assms have "p' = p \<lparr> logger := logger p' \<rparr>"
    by simp
  then have "proc_db (dispatch clk data p') =
             proc_db (dispatch clk data (p \<lparr> logger := logger p' \<rparr>))"
    by simp
  then show ?thesis
    by (simp only: dispatch_logger)
qed

lemma process_line_logger:
  "proc_db (process_line json_loads clk line (p \<lparr> logger := lg \<rparr>)) =
   proc_db (process_line json_loads clk line p)"
  by (simp add: process_line_def emit_def dispatch_logger split: option.splits json.splits)

lemma process_line_db:
  assumes "proc_db p = proc_db p'"
  shows "proc_db (process_line json_loads clk line p) =
         proc_db (process_line json_loads clk line p')"
proof -
  from assms have "p' = p \<lparr> logger := logger p' \<rparr>"
    by simp
  then have "proc_db (process_line json_loads clk line p') =
             proc_db (process_line json_loads clk line (p \<lparr> logger := logger p' \<rparr>))"
    by simp
  then show ?thesis
    by (simp only: process_line_logger)
qed

lemma process_lines_db:
  "proc_db p = proc_db p' \<Longrightarrow>
     proc_db (process_lines json_loads clk lines p) =
     proc_db (process_lines json_loads clk lines p')"
  unfolding process_lines_def
proof (induction lines arbitrary: p p')
  case Nil
  then show ?case by simp
next
  case (Cons l ls)
  from Cons.prems have "proc_db (process_line json_loads clk l p) =
                        proc_db (process_line json_loads clk l p')"
    by (rule process_line_db)
  from Cons.IH [OF this] show ?case by simp
qed


text \<open>
  The store after a batch is the store that the handlers leave when they are given, in
  the order of the lines, the objects that the lines decode to: a line that does not
  decode, or decodes to something that is not an object, adds to the log only.
\<close>

lemma fold_dispatch_db:
  "proc_db p = proc_db p' \<Longrightarrow>
     proc_db (fold (dispatch clk) ds p) = proc_db (fold (dispatch clk) ds p')"
proof (induction ds arbitrary: p p')
  case Nil
  then show ?case by simp
next
  case (Cons d ds)
  from Cons.prems have "proc_db (dispatch clk d p) = proc_db (dispatch clk d p')"
    by (rule dispatch_db)
  from Cons.IH [OF this] show ?case by simp
qed

lemma process_lines_decoded:
  "proc_db (process_lines json_loads clk lines p) =
   proc_db (fold (dispatch clk) (decoded_objects json_loads lines) p)"
proof (induction lines arbitrary: p)
  case Nil
  show ?case by (simp add: process_lines_def decoded_objects_def)
next
  case (Cons l ls)
  have step: "process_lines json_loads clk (l # ls) p =
              process_lines json_loads clk ls (process_line json_loads clk l p)"
    by (simp add: process_lines_def)
  show ?case
  proof (cases "json_loads l")
    case None
    then have "proc_db (process_line json_loads clk l p) = proc_db p"
      by (simp add: process_line_def emit_def)
    then have "proc_db (process_lines json_loads clk ls (process_line json_loads clk l p)) =
               proc_db (process_lines json_loads clk ls p)"
      by (rule process_lines_db)
    with None show ?thesis
      by (simp add: step Cons.IH decoded_objects_def)
  next
    case (Some j)
    show ?thesis
    proof (cases j)
      case (JObject data)
      with Some have "process_line json_loads clk l p = dispatch clk data p"
        by (simp add: process_line_def)
      with Some JObject show ?thesis
        by (simp add: step Cons.IH decoded_objects_def)
    next
      case JOther
      with Some have "proc_db (process_line json_loads clk l p) = proc_db p"
        by (simp add: process_line_def emit_def)
      then have "proc_db (process_lines json_loads clk ls (process_line json_loads clk l p)) =
                 proc_db (process_lines json_loads clk ls p)"
        by (rule process_lines_db)
      with Some JOther show ?thesis
        by (simp add: step Cons.IH decoded_objects_def)
    qed
  qed
qed

lemma decoded_objects_skip:
  "json_loads line = None \<Longrightarrow>
     decoded_objects json_loads (before @ line # after) =
     decoded_objects json_loads (before @ after)"
  by (simp add: decoded_objects_def)

text \<open>
  C8. A line that \<open>json.loads\<close> rejects is logged as an error, once, and changes nothing
  in the store. The loop over the batch goes on with the line after it: the state after
  the batch is the state that the lines after it produce from the state that the lines
  before it left, with the one error logged in between. The other lines are still decoded
  and projected: a line that decodes to an object is given to the handler of its event,
  and the store after the batch is the store that the handlers leave when they are given,
  in order, the objects that the other lines of the batch decode to. The loop is a total
  function: no line ends it.
\<close>

theorem malformed_line_discarded:
  assumes "json_loads line = None"
  shows
    "process_line json_loads clk line p = emit ERROR ''JSON decode error'' p
     \<and> proc_db (process_line json_loads clk line p) = proc_db p
     \<and> process_lines json_loads clk (before @ line # after) p =
         process_lines json_loads clk after
           (emit ERROR ''JSON decode error'' (process_lines json_loads clk before p))
     \<and> proc_db (process_lines json_loads clk (before @ line # after) p) =
         proc_db (process_lines json_loads clk (before @ after) p)
     \<and> proc_db (process_lines json_loads clk (before @ line # after) p) =
         proc_db (fold (dispatch clk) (decoded_objects json_loads (before @ after)) p)
     \<and> (\<forall>l data q. json_loads l = Some (JObject data) \<longrightarrow>
           process_line json_loads clk l q = dispatch clk data q)
     \<and> (\<forall>data q h. handler (dget (event data) '''') = Some h \<longrightarrow>
           dispatch clk data q = h clk data q)"
proof -
  from assms have a: "process_line json_loads clk line q = emit ERROR ''JSON decode error'' q"
    for q
    by (simp add: process_line_def)
  have b: "process_lines json_loads clk (before @ line # after) p =
         process_lines json_loads clk after
           (emit ERROR ''JSON decode error'' (process_lines json_loads clk before p))"
    by (simp add: process_lines_def a)
  have "proc_db (emit ERROR ''JSON decode error'' (process_lines json_loads clk before p)) =
        proc_db (process_lines json_loads clk before p)"
    by (simp add: emit_def)
  then have "proc_db (process_lines json_loads clk after
           (emit ERROR ''JSON decode error'' (process_lines json_loads clk before p))) =
        proc_db (process_lines json_loads clk after (process_lines json_loads clk before p))"
    by (rule process_lines_db)
  then have c: "proc_db (process_lines json_loads clk (before @ line # after) p) =
         proc_db (process_lines json_loads clk (before @ after) p)"
    by (simp add: b) (simp add: process_lines_def)
  have d: "proc_db (process_lines json_loads clk (before @ line # after) p) =
         proc_db (fold (dispatch clk) (decoded_objects json_loads (before @ after)) p)"
    by (simp only: process_lines_decoded
        decoded_objects_skip [of json_loads line before after, OF assms])
  have e: "\<forall>l data q. json_loads l = Some (JObject data) \<longrightarrow>
           process_line json_loads clk l q = dispatch clk data q"
    by (simp add: process_line_def)
  have f: "\<forall>data q h. handler (dget (event data) '''') = Some h \<longrightarrow>
           dispatch clk data q = h clk data q"
    by (simp add: dispatch_def)
  have a': "proc_db (process_line json_loads clk line p) = proc_db p"
    by (simp add: a emit_def)
  from a [of p] a' b c d e f show ?thesis
    by (intro conjI)
qed

lemma handle_Location_store0:
  "game_state db = Some row \<Longrightarrow> row ''id'' = Some (SInt 1) \<Longrightarrow> StarSystem data = Some s \<Longrightarrow>
     handle_Location clk data \<lparr> proc_db = db, logger = lg \<rparr> =
       \<lparr> proc_db = db \<lparr> game_state :=
            Some (row (''current_system'' \<mapsto> SText s,
                       ''last_updated'' \<mapsto> SText (CURRENT_TIMESTAMP clk))) \<rparr>,
         logger = lg @ [(INFO, ''Location'')] \<rparr>"
  by (simp add: handle_Location_def Let_def dget_def update_game_state_def sql_update_def
      canonical_def column_of_game_state bindable_def assign_def emit_def)

theorem malformed_line_discarded_witness:
  "get_game_state
     (proc_db (process_lines example_loads clock1
        ([''{ event:Location, StarSystem:Sol }''] @ ''{ event:Locat'' #
         [''42'', ''{ event:Location, StarSystem:Achenar }'']) processor0))
     ''current_system'' = Some (SText ''Achenar'')
   \<and> logger (process_lines example_loads clock1
        ([''{ event:Location, StarSystem:Sol }''] @ ''{ event:Locat'' #
         [''42'', ''{ event:Location, StarSystem:Achenar }'']) processor0)
     = [(INFO, ''Location''), (ERROR, ''JSON decode error''),
        (ERROR, ''Error processing line''), (INFO, ''Location'')]
   \<and> process_line example_loads clock1 ''{ event:Location, StarSystem:Sol }'' processor0
     = handle_Location clock1 location_sol processor0"
proof -
  have h: "example_loads ''{ event:Locat'' = None"
    by (simp add: example_loads_def)
  have l1: "example_loads ''{ event:Location, StarSystem:Sol }'' = Some (JObject location_sol)"
    by (simp add: example_loads_def)
  have l2: "example_loads ''{ event:Location, StarSystem:Achenar }'' =
              Some (JObject location_achenar)"
    by (simp add: example_loads_def)
  have l3: "example_loads ''42'' = Some JOther"
    by (simp add: example_loads_def)
  have hs: "handler (dget (event location_sol) '''') = Some handle_Location"
    by (simp add: location_sol_def empty_entry_def dget_def handler_def)
  have ha: "handler (dget (event location_achenar) '''') = Some handle_Location"
    by (simp add: location_achenar_def empty_entry_def dget_def handler_def)
  have ss: "StarSystem location_sol = Some ''Sol''"
    by (simp add: location_sol_def empty_entry_def)
  have sa: "StarSystem location_achenar = Some ''Achenar''"
    by (simp add: location_achenar_def empty_entry_def)
  note t = malformed_line_discarded [of example_loads "''{ event:Locat''", OF h,
      of clock1 processor0 "[''{ event:Location, StarSystem:Sol }'']"
         "[''42'', ''{ event:Location, StarSystem:Achenar }'']"]
  note t5 = t [THEN conjunct2, THEN conjunct2, THEN conjunct2, THEN conjunct2, THEN conjunct1]
  note t3 = t [THEN conjunct2, THEN conjunct2, THEN conjunct1]
  note t6 = t [THEN conjunct2, THEN conjunct2, THEN conjunct2, THEN conjunct2, THEN conjunct2,
      THEN conjunct1]
  note t7 = t [THEN conjunct2, THEN conjunct2, THEN conjunct2, THEN conjunct2, THEN conjunct2,
      THEN conjunct2]
  note ds = t7 [THEN spec, THEN spec, THEN spec, THEN mp, OF hs]
  note da = t7 [THEN spec, THEN spec, THEN spec, THEN mp, OF ha]
  note ps = t6 [THEN spec, THEN spec, THEN spec, THEN mp, OF l1]
  have objs: "decoded_objects example_loads
        ([''{ event:Location, StarSystem:Sol }''] @
         [''42'', ''{ event:Location, StarSystem:Achenar }'']) = [location_sol, location_achenar]"
    by (simp add: decoded_objects_def l1 l2 l3)
  have w1: "get_game_state
     (proc_db (process_lines example_loads clock1
        ([''{ event:Location, StarSystem:Sol }''] @ ''{ event:Locat'' #
         [''42'', ''{ event:Location, StarSystem:Achenar }'']) processor0))
     ''current_system'' = Some (SText ''Achenar'')"
    unfolding t5 objs
    by (simp add: ds da processor0_def store0_rows handle_Location_store0 ss sa
        get_game_state_def)
  have w2: "logger (process_lines example_loads clock1
        ([''{ event:Location, StarSystem:Sol }''] @ ''{ event:Locat'' #
         [''42'', ''{ event:Location, StarSystem:Achenar }'']) processor0)
     = [(INFO, ''Location''), (ERROR, ''JSON decode error''),
        (ERROR, ''Error processing line''), (INFO, ''Location'')]"
    unfolding t3
    by (simp add: process_lines_def process_line_def l1 l2 l3 ds da processor0_def
        store0_rows handle_Location_store0 ss sa emit_def)
  have w3: "process_line example_loads clock1 ''{ event:Location, StarSystem:Sol }'' processor0
     = handle_Location clock1 location_sol processor0"
    by (simp only: ps ds)
  show ?thesis
    by (intro conjI) (rule w1, rule w2, rule w3)
qed

section \<open>Prospected asteroids\<close>

lemma fold_insert_rows:
  "prospected_asteroids (fold (\<lambda>x. insert_asteroid (f x)) xs db) =
     prospected_asteroids db @
     map (\<lambda>(i, x). (f x) \<lparr> a_id := i \<rparr>) (enumerate (Suc (prospected_seq db)) xs)"
proof (induction xs arbitrary: db)
  case Nil
  show ?case by simp
next
  case (Cons x xs)
  show ?case
    using Cons.IH [of "insert_asteroid (f x) db"] by (simp add: insert_asteroid_def)
qed

lemma fold_insert_seq:
  "prospected_seq (fold (\<lambda>x. insert_asteroid (f x)) xs db) = prospected_seq db + length xs"
proof (induction xs arbitrary: db)
  case Nil
  show ?case by simp
next
  case (Cons x xs)
  show ?case
    using Cons.IH [of "insert_asteroid (f x) db"] by (simp add: insert_asteroid_def)
qed

lemma no_Name_suffix:
  "\<not> sublist ''_Name'' ''Platinum''" "\<not> sublist ''_Name'' ''Praseodymium''"
  "\<not> sublist ''_Name'' ''Bromellite''"
  by code_simp+

text \<open>
  The handler of \<open>ed_log_reader.py\<close> does what the specification says: the rows it adds
  are one surface row for each entry of \<open>Materials\<close>, in order, and after them one row for
  a non-empty \<open>MotherlodeMaterial\<close>; the surface rows carry the proportion as it is.
\<close>

lemma elr_handle_prospected_asteroid_rows:
  "prospected_asteroids (elr_handle_prospected_asteroid data db) =
     prospected_asteroids db @
     map (\<lambda>(i, material). (elr_inserted_row (elr_surface_data data material)) \<lparr> a_id := i \<rparr>)
         (enumerate (Suc (prospected_seq db)) (dget (Materials data) [])) @
     (if truthy_str (MotherlodeMaterial data)
      then [(elr_inserted_row (elr_motherlode_data data (the (MotherlodeMaterial data))))
              \<lparr> a_id := Suc (prospected_seq db + length (dget (Materials data) [])) \<rparr>]
      else [])"
proof -
  have e: "elr_add_prospected_asteroid d = insert_asteroid (elr_inserted_row d)" for d
    by (rule ext) (simp add: elr_add_prospected_asteroid_def)
  show ?thesis
    by (simp add: elr_handle_prospected_asteroid_def Let_def e
        fold_insert_rows [where f = "\<lambda>m. elr_inserted_row (elr_surface_data data m)"]
        fold_insert_seq [where f = "\<lambda>m. elr_inserted_row (elr_surface_data data m)"]
        insert_asteroid_def)
qed

lemma elr_surface_row:
  "elr_inserted_row (elr_surface_data data material) =
     \<lparr> a_id = 0, a_timestamp = None,
       a_journal_timestamp = Some (dget (timestamp data) ''''),
       a_material_name = Some (dget (Name_Localised material) (dget (Name material) ''Unknown'')),
       a_percentage = Some (dget (Proportion material) 0),
       a_is_motherlode = 0,
       a_content_level = Some (elr_content_level (dget (Content_Localised data) ''Unknown'')),
       a_is_surface = 1, a_is_deepcore = 0,
       a_remaining = Some (dget (Remaining data) 100),
       a_processed = 0 \<rparr>"
  by (simp add: elr_inserted_row_def elr_surface_data_def Let_def dget_def)

lemma elr_motherlode_row:
  "elr_inserted_row (elr_motherlode_data data m) =
     \<lparr> a_id = 0, a_timestamp = None,
       a_journal_timestamp = Some (dget (timestamp data) ''''),
       a_material_name = Some m,
       a_percentage = Some 100,
       a_is_motherlode = 1,
       a_content_level = Some (elr_content_level (dget (Content_Localised data) ''Unknown'')),
       a_is_surface = 1, a_is_deepcore = 1,
       a_remaining = Some (dget (Remaining data) 100),
       a_processed = 0 \<rparr>"
  by (simp add: elr_inserted_row_def elr_motherlode_data_def dget_def)

lemma elr_fan_out:
  assumes "MotherlodeMaterial data = Some m" and "m \<noteq> []"
  shows "length (prospected_asteroids (elr_handle_prospected_asteroid data db)) =
           length (prospected_asteroids db) + length (dget (Materials data) []) + 1"
  using assms by (simp add: elr_handle_prospected_asteroid_rows truthy_str_def)

text \<open>
  C1 at the projector of \<open>services/service_gamelog.py\<close>. The journal entry of the
  older handler's own documentation, two materials and the motherlode material Painite,
  leaves two rows, not three: no row for Painite, no row with the deepcore or the
  motherlode flag. The same entry through the older handler leaves the three rows.
\<close>

theorem prospected_motherlode_row_missing:
  "map (\<lambda>r. (a_material_name r, a_is_motherlode r, a_is_deepcore r))
     (prospected_asteroids
        (proc_db (handle_ProspectedAsteroid clock0 prospect_painite processor0)))
     = [(Some ''Platinum'', 0, 0), (Some ''Praseodymium'', 0, 0)]
   \<and> map (\<lambda>r. (a_material_name r, a_percentage r, a_is_motherlode r, a_is_deepcore r))
     (prospected_asteroids (elr_handle_prospected_asteroid prospect_painite store0))
     = [(Some ''Platinum'', Some 51.662041, 0, 0), (Some ''Praseodymium'', Some 11.502447, 0, 0),
        (Some ''Painite'', Some 100, 1, 1)]"
  by (simp add: handle_ProspectedAsteroid_db elr_handle_prospected_asteroid_rows
      elr_surface_row elr_motherlode_row truthy_str_def
      prospect_painite_def empty_entry_def dget_def
      prospected_row_def Let_def insert_asteroid_def processor0_def store0_def create_tables_def
      no_Name_suffix)

text \<open>
  C2 at the projector of \<open>services/service_gamelog.py\<close>. A material with the
  proportion 63.4 is stored with the percentage 6340: the handler multiplies by 100. The
  older handler stores 63.4.
\<close>

theorem prospected_percentage_rescaled:
  "map a_percentage
     (prospected_asteroids
        (proc_db (handle_ProspectedAsteroid clock0 prospect_634 processor0)))
     = [Some 6340]
   \<and> map a_percentage
     (prospected_asteroids (elr_handle_prospected_asteroid prospect_634 store0))
     = [Some 63.4]"
  by (simp add: handle_ProspectedAsteroid_db elr_handle_prospected_asteroid_rows
      elr_surface_row elr_motherlode_row truthy_str_def
      prospect_634_def empty_entry_def dget_def
      prospected_row_def Let_def insert_asteroid_def processor0_def store0_def create_tables_def
      no_Name_suffix)

section \<open>Reading the unprocessed detections\<close>

lemma store_two_rows:
  "map (\<lambda>r. (a_id r, a_timestamp r, a_processed r)) (prospected_asteroids store_two) =
     [(1, Some ''2025-11-29 12:00:00'', 0), (2, Some ''2025-11-29 12:00:00'', 0),
      (3, Some ''2025-11-29 12:00:01'', 0)]"
  by (simp add: store_two_def handle_ProspectedAsteroid_db prospect_painite_def
      prospect_634_def empty_entry_def dget_def prospected_row_def Let_def insert_asteroid_def
      store0_def create_tables_def clock0_def clock1_def)

text \<open>
  C5 as stated fails on the order: of three unprocessed rows, the accessor of
  \<open>core/core_database.py\<close> returns the one captured last first, and with the limit 1 it
  returns that one alone.
\<close>

theorem unprocessed_newest_first_counterexample:
  "map a_id (filter (\<lambda>r. a_processed r = 0) (prospected_asteroids store_two)) = [1, 2, 3]
   \<and> map_sum id (\<lambda>rows. take 1 (map a_id rows)) (get_unprocessed_asteroids 100 store_two)
       = Inr [3]
   \<and> map_sum id (map a_id) (get_unprocessed_asteroids 1 store_two) = Inr [3]"
  by code_simp

lemma order_by_desc_mset: "mset (order_by_desc key rows) = mset rows"
  by (simp add: order_by_desc_def)

lemma order_by_desc_sorted: "sorted (rev (map key (order_by_desc key rows)))"
  by (simp add: order_by_desc_def rev_map)

text \<open>
  C5, as the code has it. The limit is bound as a signed integer of 64 bits. Within that
  range the accessor of \<open>core/core_database.py\<close> returns: without a limit (a negative
  one) the rows with \<open>processed = 0\<close>, each once, ordered by their capture time from the
  latest to the earliest; with a limit the first that many of them. Outside that range it
  returns nothing: it raises \<open>OverflowError\<close>. The reader of \<open>ed_mining_scanner.py\<close>
  takes no limit and returns the rows with \<open>processed = 0\<close>, each once, by ascending
  identity; that is their order in the table when the table is in the order of its
  identities.
\<close>

theorem unprocessed_asteroids_order:
  "(\<exists>full. get_unprocessed_asteroids (- 1) db = Inr full
       \<and> mset full = mset (filter (\<lambda>r. a_processed r = 0) (prospected_asteroids db))
       \<and> sorted (rev (map a_timestamp full))
       \<and> (- (2 ^ 63) \<le> limit \<and> limit < 2 ^ 63 \<longrightarrow>
            get_unprocessed_asteroids limit db =
              Inr (if limit < 0 then full else take (nat limit) full)))
   \<and> (limit < - (2 ^ 63) \<or> 2 ^ 63 \<le> limit \<longrightarrow>
        get_unprocessed_asteroids limit db = Inl OverflowError)
   \<and> (\<exists>rows. scanner_get_unprocessed_asteroids (Inr db) = Inr rows
         \<and> mset rows = mset (filter (\<lambda>r. a_processed r = 0) (prospected_asteroids db))
         \<and> sorted (map a_id rows))
   \<and> (sorted (map a_id (prospected_asteroids db)) \<longrightarrow>
        scanner_get_unprocessed_asteroids (Inr db) =
          Inr (filter (\<lambda>r. a_processed r = 0) (prospected_asteroids db)))"
proof (intro conjI impI)
  define full where
    "full = order_by_desc a_timestamp (filter (\<lambda>r. a_processed r = 0) (prospected_asteroids db))"
  have f1: "get_unprocessed_asteroids (- 1) db = Inr full"
    by (simp add: get_unprocessed_asteroids_def fits_int64_def sql_limit_def full_def)
  have f2: "mset full = mset (filter (\<lambda>r. a_processed r = 0) (prospected_asteroids db))"
    by (simp add: full_def order_by_desc_mset)
  have f3: "sorted (rev (map a_timestamp full))"
    by (simp add: full_def order_by_desc_sorted)
  have f4: "- (2 ^ 63) \<le> limit \<and> limit < 2 ^ 63 \<longrightarrow>
            get_unprocessed_asteroids limit db =
              Inr (if limit < 0 then full else take (nat limit) full)"
    by (simp add: get_unprocessed_asteroids_def fits_int64_def sql_limit_def full_def)
  from f1 f2 f3 f4
  show "\<exists>full. get_unprocessed_asteroids (- 1) db = Inr full
       \<and> mset full = mset (filter (\<lambda>r. a_processed r = 0) (prospected_asteroids db))
       \<and> sorted (rev (map a_timestamp full))
       \<and> (- (2 ^ 63) \<le> limit \<and> limit < 2 ^ 63 \<longrightarrow>
            get_unprocessed_asteroids limit db =
              Inr (if limit < 0 then full else take (nat limit) full))"
    by (intro exI [of _ full] conjI)
  show "\<exists>rows. scanner_get_unprocessed_asteroids (Inr db) = Inr rows
         \<and> mset rows = mset (filter (\<lambda>r. a_processed r = 0) (prospected_asteroids db))
         \<and> sorted (map a_id rows)"
    by (simp add: scanner_get_unprocessed_asteroids_def)
next
  assume "limit < - (2 ^ 63) \<or> 2 ^ 63 \<le> limit"
  then show "get_unprocessed_asteroids limit db = Inl OverflowError"
    by (auto simp: get_unprocessed_asteroids_def fits_int64_def)
next
  assume "sorted (map a_id (prospected_asteroids db))"
  then have "sorted (map a_id (filter (\<lambda>r. a_processed r = 0) (prospected_asteroids db)))"
    by (rule sorted_filter)
  then show "scanner_get_unprocessed_asteroids (Inr db) =
          Inr (filter (\<lambda>r. a_processed r = 0) (prospected_asteroids db))"
    by (simp add: scanner_get_unprocessed_asteroids_def sort_key_id_if_sorted)
qed

theorem unprocessed_asteroids_order_witness:
  "scanner_get_unprocessed_asteroids (Inr store_two) =
     Inr (filter (\<lambda>r. a_processed r = 0) (prospected_asteroids store_two))
   \<and> get_unprocessed_asteroids (2 ^ 63) store_two = Inl OverflowError
   \<and> (\<exists>full. get_unprocessed_asteroids (- 1) store_two = Inr full
        \<and> get_unprocessed_asteroids 2 store_two = Inr (take 2 full)
        \<and> get_unprocessed_asteroids (- 5) store_two = Inr full)"
proof -
  have "map a_id (prospected_asteroids store_two) = [1, 2, 3]"
    using store_two_rows [THEN arg_cong, of "map fst"] by (simp add: comp_def)
  then have h: "sorted (map a_id (prospected_asteroids store_two))"
    by simp
  have o: "(2 ^ 63 :: int) < - (2 ^ 63) \<or> (2 ^ 63 :: int) \<le> 2 ^ 63"
    by simp
  have b2: "- (2 ^ 63) \<le> (2 :: int) \<and> (2 :: int) < 2 ^ 63"
    by simp
  have b5: "- (2 ^ 63) \<le> (- 5 :: int) \<and> (- 5 :: int) < 2 ^ 63"
    by simp
  note w1 = unprocessed_asteroids_order [of store_two, THEN conjunct2, THEN conjunct2,
          THEN conjunct2, THEN mp, OF h]
  note w2 = unprocessed_asteroids_order [of store_two "2 ^ 63", THEN conjunct2,
          THEN conjunct1, THEN mp, OF o]
  from unprocessed_asteroids_order [of store_two 2, THEN conjunct1]
  obtain full where a1: "get_unprocessed_asteroids (- 1) store_two = Inr full"
    and a2: "- (2 ^ 63) \<le> (2 :: int) \<and> (2 :: int) < 2 ^ 63 \<longrightarrow>
            get_unprocessed_asteroids 2 store_two =
              Inr (if (2 :: int) < 0 then full else take (nat 2) full)"
    by blast
  from unprocessed_asteroids_order [of store_two "- 5", THEN conjunct1] a1
  have a3: "- (2 ^ 63) \<le> (- 5 :: int) \<and> (- 5 :: int) < 2 ^ 63 \<longrightarrow>
            get_unprocessed_asteroids (- 5) store_two =
              Inr (if (- 5 :: int) < 0 then full else take (nat (- 5)) full)"
    by auto
  from a2 [THEN mp, OF b2] have c2: "get_unprocessed_asteroids 2 store_two = Inr (take 2 full)"
    by simp
  from a3 [THEN mp, OF b5] have c5: "get_unprocessed_asteroids (- 5) store_two = Inr full"
    by simp
  from a1 c2 c5 have w3: "\<exists>full. get_unprocessed_asteroids (- 1) store_two = Inr full
        \<and> get_unprocessed_asteroids 2 store_two = Inr (take 2 full)
        \<and> get_unprocessed_asteroids (- 5) store_two = Inr full"
    by blast
  show ?thesis
    by (intro conjI) (rule w1, rule w2, rule w3)
qed

section \<open>Locating the journal\<close>

lemma max_key_in: "max_key key x xs \<in> set (x # xs)"
  unfolding max_key_def by (induction xs arbitrary: x) auto

lemma max_key_greatest: "y \<in> set (x # xs) \<Longrightarrow> key y \<le> key (max_key key x xs)"
  unfolding max_key_def
proof (induction xs arbitrary: x y)
  case Nil
  then show ?case by simp
next
  case (Cons z zs)
  have mono: "key a \<le> key (fold (\<lambda>y best. if key best < key y then y else best) zs a)" for a
    using Cons.IH [of a a] by simp
  show ?case
  proof (cases "y \<in> set zs")
    case True
    then show ?thesis using Cons.IH [of y _] by simp
  next
    case False
    with Cons.prems have "y = x \<or> y = z" by auto
    then show ?thesis
    proof
      assume "y = x"
      show ?thesis
      proof (cases "key x < key z")
        case True
        with mono [of z] \<open>y = x\<close> show ?thesis by simp
      next
        case False
        with mono [of x] \<open>y = x\<close> show ?thesis by simp
      qed
    next
      assume "y = z"
      show ?thesis
      proof (cases "key x < key z")
        case True
        with mono [of z] \<open>y = z\<close> show ?thesis by simp
      next
        case False
        with mono [of x] \<open>y = z\<close> show ?thesis by simp
      qed
    qed
  qed
qed

lemma last_sorted_Max: "sorted ys \<Longrightarrow> ys \<noteq> [] \<Longrightarrow> last ys = Max (set ys)"
proof (induction ys)
  case Nil
  then show ?case by simp
next
  case (Cons y ys)
  show ?case
  proof (cases "ys = []")
    case True
    then show ?thesis by simp
  next
    case False
    with Cons have "last ys = Max (set ys)" by simp
    moreover from Cons.prems False have "y \<le> Max (set ys)"
      by (metis List.finite_set Max_ge_iff last_in_set set_empty2 sorted_simps(2) calculation)
    ultimately show ?thesis using False by (simp add: max_def)
  qed
qed

lemma rev_sort_head:
  assumes "xs \<noteq> []"
  shows "rev (sort xs) = Max (set xs) # tl (rev (sort xs))"
proof -
  from assms have ne: "sort xs \<noteq> []"
    by (metis length_0_conv length_sort)
  then have "hd (rev (sort xs)) = last (sort xs)"
    by (simp add: hd_rev)
  also have "\<dots> = Max (set (sort xs))"
    using ne by (intro last_sorted_Max) simp_all
  finally have "hd (rev (sort xs)) = Max (set xs)"
    by simp
  moreover from ne have "rev (sort xs) \<noteq> []"
    by simp
  ultimately show ?thesis
    by (metis list.collapse)
qed

lemma append_le_cancel: "(xs @ ys \<le> xs @ zs) = (ys \<le> (zs :: 'a::linorder list))"
  by (induction xs) simp_all

lemma le_append_same_length:
  "length ys = length zs \<Longrightarrow> (ys @ s \<le> zs @ s) = (ys \<le> (zs :: 'a::linorder list))"
  by (induction ys zs rule: list_induct2) simp_all

lemma max_key_result:
  assumes "filter P dir = f # fs"
  shows "max_key key f fs \<in> set (filter P dir)
         \<and> (\<forall>g \<in> set (filter P dir). key g \<le> key (max_key key f fs))"
  using assms max_key_in [of key f fs] max_key_greatest [of _ f fs key] by simp

text \<open>
  C3 as stated fails for the two locators that go by the time stamps: when the older
  journal was written to last, \<open>find_latest_journal\<close> of
  \<open>services/service_gamelog.py\<close> and \<open>get_latest_journal\<close> of \<open>journal_reader.py\<close>
  return it, though the other file has the greater token; with the time stamps
  exchanged and the names as they were, they return the other file.
\<close>

theorem locator_by_time_counterexample:
  "find_latest_journal dir_old_touched = Some ''Journal.0001.log''
   \<and> get_latest_journal dir_old_touched = Some ''Journal.0001.log''
   \<and> find_latest_journal dir_new_touched = Some ''Journal.0002.log''
   \<and> get_latest_journal dir_new_touched = Some ''Journal.0002.log''
   \<and> map file_name dir_old_touched = map file_name dir_new_touched
   \<and> ''0001'' < ''0002''"
  by code_simp

text \<open>
  C3, as the code has it. \<open>_find_latest_journal\<close> of \<open>ed_log_reader.py\<close> goes by the
  names alone: of the names that begin with \<open>Journal.\<close> and end with \<open>.log\<close> it returns
  the greatest, and it raises when there is none; between two names whose tokens have one
  length the greater name is the one of the greater token. \<open>find_latest_journal\<close> of
  \<open>services/service_gamelog.py\<close> returns a file that matches the pattern and whose
  modification time no other matching file exceeds, and \<open>get_latest_journal\<close> of
  \<open>journal_reader.py\<close> does the same by the creation time; they return nothing when no
  file matches.
\<close>

theorem journal_locators:
  "(filter (\<lambda>f. prefix ''Journal.'' f \<and> suffix ''.log'' f) (map file_name dir) \<noteq> [] \<longrightarrow>
      elr_find_latest_journal (Some dir) =
        Inr (Max (set (filter (\<lambda>f. prefix ''Journal.'' f \<and> suffix ''.log'' f)
                              (map file_name dir)))))
   \<and> (filter (\<lambda>f. prefix ''Journal.'' f \<and> suffix ''.log'' f) (map file_name dir) = [] \<longrightarrow>
      elr_find_latest_journal (Some dir) = Inl FileNotFoundError)
   \<and> (map file_name dir = map file_name dir' \<longrightarrow>
      elr_find_latest_journal (Some dir) = elr_find_latest_journal (Some dir'))
   \<and> (length t = length u \<longrightarrow>
      (''Journal.'' @ t @ ''.log'' \<le> ''Journal.'' @ u @ ''.log'') = (t \<le> u))
   \<and> (filter (\<lambda>f. glob_journal (file_name f)) dir \<noteq> [] \<longrightarrow>
      (\<exists>f \<in> set (filter (\<lambda>f. glob_journal (file_name f)) dir).
         find_latest_journal dir = Some (file_name f)
         \<and> (\<forall>g \<in> set (filter (\<lambda>f. glob_journal (file_name f)) dir). st_mtime g \<le> st_mtime f))
      \<and> (\<exists>f \<in> set (filter (\<lambda>f. glob_journal (file_name f)) dir).
         get_latest_journal dir = Some (file_name f)
         \<and> (\<forall>g \<in> set (filter (\<lambda>f. glob_journal (file_name f)) dir). st_ctime g \<le> st_ctime f)))
   \<and> (filter (\<lambda>f. glob_journal (file_name f)) dir = [] \<longrightarrow>
      find_latest_journal dir = None \<and> get_latest_journal dir = None)"
proof (intro conjI impI)
  assume ne: "filter (\<lambda>f. prefix ''Journal.'' f \<and> suffix ''.log'' f) (map file_name dir) \<noteq> []"
  define names where
    "names = filter (\<lambda>f. prefix ''Journal.'' f \<and> suffix ''.log'' f) (map file_name dir)"
  from ne have "names \<noteq> []"
    unfolding names_def .
  from rev_sort_head [OF this] obtain rest
    where r: "rev (sort names) = Max (set names) # rest"
    by (rule that)
  have "elr_find_latest_journal (Some dir) =
      (case rev (sort names) of [] \<Rightarrow> Inl FileNotFoundError | f # journal_files \<Rightarrow> Inr f)"
    by (simp only: elr_find_latest_journal_def names_def option.case)
  also have "\<dots> = Inr (Max (set names))"
    by (simp only: r list.case)
  finally show "elr_find_latest_journal (Some dir) =
        Inr (Max (set (filter (\<lambda>f. prefix ''Journal.'' f \<and> suffix ''.log'' f)
                              (map file_name dir))))"
    by (simp only: names_def)
next
  assume "filter (\<lambda>f. prefix ''Journal.'' f \<and> suffix ''.log'' f) (map file_name dir) = []"
  then show "elr_find_latest_journal (Some dir) = Inl FileNotFoundError"
    unfolding elr_find_latest_journal_def by simp
next
  assume "map file_name dir = map file_name dir'"
  then show "elr_find_latest_journal (Some dir) = elr_find_latest_journal (Some dir')"
    unfolding elr_find_latest_journal_def by simp
next
  assume "length t = length u"
  then show "(''Journal.'' @ t @ ''.log'' \<le> ''Journal.'' @ u @ ''.log'') = (t \<le> u)"
    by (simp only: append_le_cancel le_append_same_length)
next
  assume ne: "filter (\<lambda>f. glob_journal (file_name f)) dir \<noteq> []"
  then obtain f fs where e: "filter (\<lambda>f. glob_journal (file_name f)) dir = f # fs"
    by (cases "filter (\<lambda>f. glob_journal (file_name f)) dir") auto
  have m: "find_latest_journal dir = Some (file_name (max_key st_mtime f fs))"
    by (simp add: find_latest_journal_def e)
  from max_key_result [OF e, of st_mtime] m
  show "\<exists>f \<in> set (filter (\<lambda>f. glob_journal (file_name f)) dir).
         find_latest_journal dir = Some (file_name f)
         \<and> (\<forall>g \<in> set (filter (\<lambda>f. glob_journal (file_name f)) dir). st_mtime g \<le> st_mtime f)"
    by blast
  have c: "get_latest_journal dir = Some (file_name (max_key st_ctime f fs))"
    by (simp add: get_latest_journal_def e)
  from max_key_result [OF e, of st_ctime] c
  show "\<exists>f \<in> set (filter (\<lambda>f. glob_journal (file_name f)) dir).
         get_latest_journal dir = Some (file_name f)
         \<and> (\<forall>g \<in> set (filter (\<lambda>f. glob_journal (file_name f)) dir). st_ctime g \<le> st_ctime f)"
    by blast
next
  assume e: "filter (\<lambda>f. glob_journal (file_name f)) dir = []"
  show "find_latest_journal dir = None"
    by (simp add: find_latest_journal_def e)
  show "get_latest_journal dir = None"
    by (simp add: get_latest_journal_def e)
qed

theorem journal_locators_witness:
  "elr_find_latest_journal (Some dir_old_touched) =
     Inr (Max (set (filter (\<lambda>f. prefix ''Journal.'' f \<and> suffix ''.log'' f)
                           (map file_name dir_old_touched))))
   \<and> elr_find_latest_journal (Some []) = Inl FileNotFoundError
   \<and> elr_find_latest_journal (Some dir_old_touched) =
       elr_find_latest_journal (Some dir_new_touched)
   \<and> (''Journal.'' @ ''0001'' @ ''.log'' \<le> ''Journal.'' @ ''0002'' @ ''.log'')
       = (''0001'' \<le> ''0002'')
   \<and> ((\<exists>f \<in> set (filter (\<lambda>f. glob_journal (file_name f)) dir_old_touched).
         find_latest_journal dir_old_touched = Some (file_name f)
         \<and> (\<forall>g \<in> set (filter (\<lambda>f. glob_journal (file_name f)) dir_old_touched).
               st_mtime g \<le> st_mtime f))
      \<and> (\<exists>f \<in> set (filter (\<lambda>f. glob_journal (file_name f)) dir_old_touched).
         get_latest_journal dir_old_touched = Some (file_name f)
         \<and> (\<forall>g \<in> set (filter (\<lambda>f. glob_journal (file_name f)) dir_old_touched).
               st_ctime g \<le> st_ctime f)))
   \<and> (find_latest_journal [] = None \<and> get_latest_journal [] = None)"
proof -
  have h1: "filter (\<lambda>f. prefix ''Journal.'' f \<and> suffix ''.log'' f)
              (map file_name dir_old_touched) \<noteq> []"
    by code_simp
  have h2: "filter (\<lambda>f. prefix ''Journal.'' f \<and> suffix ''.log'' f)
              (map file_name ([] :: directory)) = []"
    by simp
  have h3: "map file_name dir_old_touched = map file_name dir_new_touched"
    by (simp add: dir_old_touched_def dir_new_touched_def)
  have h4: "length ''0001'' = length ''0002''"
    by simp
  have h5: "filter (\<lambda>f. glob_journal (file_name f)) dir_old_touched \<noteq> []"
    by code_simp
  have h6: "filter (\<lambda>f. glob_journal (file_name f)) ([] :: directory) = []"
    by simp
  note w1 = journal_locators [of dir_old_touched, THEN conjunct1, THEN mp, OF h1]
  note w2 = journal_locators [of "[]", THEN conjunct2, THEN conjunct1, THEN mp, OF h2]
  note w3 = journal_locators [of dir_old_touched dir_new_touched, THEN conjunct2,
      THEN conjunct2, THEN conjunct1, THEN mp, OF h3]
  note w4 = journal_locators [of _ _ "''0001''" "''0002''", THEN conjunct2, THEN conjunct2,
      THEN conjunct2, THEN conjunct1, THEN mp, OF h4]
  note w5 = journal_locators [of dir_old_touched, THEN conjunct2, THEN conjunct2,
      THEN conjunct2, THEN conjunct2, THEN conjunct1, THEN mp, OF h5]
  note w6 = journal_locators [of "[]", THEN conjunct2, THEN conjunct2,
      THEN conjunct2, THEN conjunct2, THEN conjunct2, THEN mp, OF h6]
  show ?thesis
    by (intro conjI) (rule w1, rule w2, rule w3, rule w4, rule w5 [THEN conjunct1],
        rule w5 [THEN conjunct2], rule w6 [THEN conjunct1], rule w6 [THEN conjunct2])
qed

section \<open>Reading appended lines\<close>













end
